theory Spec2Isabelle
  imports Complex_Main "HOL-Library.Sublist" "HOL-Library.AList" "HOL-Library.Multiset"
    "HOL-Library.Option_ord"
begin

section \<open>Strings and numbers of the host language\<close>

text \<open>
  The sources are TypeScript. A string is modelled as a \<^typ>\<open>string\<close> whose characters are
  ASCII code units: on such strings the case mappings and \<open>trim\<close> below coincide with the
  JavaScript ones, and \<open>length\<close> is the JavaScript \<open>length\<close>. A \<open>number\<close> is modelled as a
  rational (no NaN, no infinities); \<open>Math.round x\<close> is \<open>\<lfloor>x + 1/2\<rfloor>\<close>, which is \<^const>\<open>round\<close>.
\<close>

type_synonym number = rat

definition lower_char :: "char \<Rightarrow> char" where
  "lower_char c =
     (case map_of (zip ''ABCDEFGHIJKLMNOPQRSTUVWXYZ'' ''abcdefghijklmnopqrstuvwxyz'') c of
        Some l \<Rightarrow> l
      | None \<Rightarrow> c)"

definition upper_char :: "char \<Rightarrow> char" where
  "upper_char c =
     (case map_of (zip ''abcdefghijklmnopqrstuvwxyz'' ''ABCDEFGHIJKLMNOPQRSTUVWXYZ'') c of
        Some u \<Rightarrow> u
      | None \<Rightarrow> c)"

definition toLowerCase :: "string \<Rightarrow> string" where
  "toLowerCase s = map lower_char s"

definition toUpperCase :: "string \<Rightarrow> string" where
  "toUpperCase s = map upper_char s"

text \<open>White space removed by \<open>String.prototype.trim\<close>: tab, LF, VT, FF, CR and space.\<close>

definition is_space :: "char \<Rightarrow> bool" where
  "is_space c = (c \<in> set [CHR 0x09, CHR 0x0A, CHR 0x0B, CHR 0x0C, CHR 0x0D, CHR '' ''])"

definition trim :: "string \<Rightarrow> string" where
  "trim s = rev (dropWhile is_space (rev (dropWhile is_space s)))"

text \<open>\<open>s.includes(sub)\<close>: \<open>sub\<close> occurs in \<open>s\<close> as a contiguous run.\<close>

fun str_includes :: "string \<Rightarrow> string \<Rightarrow> bool" where
  "str_includes [] sub = (sub = [])"
| "str_includes (c # cs) sub = (prefix sub (c # cs) \<or> str_includes cs sub)"

text \<open>\<open>s || d\<close> for an optional string: \<open>undefined\<close>, \<open>null\<close> and \<open>''\<close> are falsy.\<close>

definition str_or :: "string option \<Rightarrow> string \<Rightarrow> string" where
  "str_or s d = (case s of None \<Rightarrow> d | Some v \<Rightarrow> if v = [] then d else v)"

text \<open>\<open>s.split(' ')\<close>: the pieces between single spaces, empty pieces included.\<close>

fun split_space :: "string \<Rightarrow> string list" where
  "split_space [] = [[]]"
| "split_space (c # cs) =
     (if c = CHR '' '' then [] # split_space cs
      else (case split_space cs of
              [] \<Rightarrow> [[c]]
            | w # ws \<Rightarrow> (c # w) # ws))"

text \<open>\<open>xs.join(sep)\<close>.\<close>

fun join :: "string \<Rightarrow> string list \<Rightarrow> string" where
  "join sep [] = []"
| "join sep [w] = w"
| "join sep (w # v # ws) = w @ sep @ join sep (v # ws)"

text \<open>\<open>Math.round(Math.max(1, Math.min(10, x)))\<close>, the clamp applied to every score.\<close>

definition clampRound :: "number \<Rightarrow> int" where
  "clampRound x = round (max 1 (min 10 x))"

section \<open>JSON values and objects\<close>

text \<open>A \<open>Date\<close> is represented by its epoch milliseconds, here and in every timestamp.\<close>

datatype json =
    JNull
  | JBool bool
  | JNum number
  | JStr string
  | JDate int
  | JArr "json list"
  | JObj "(string \<times> json) list"

text \<open>
  A \<open>Record<string, unknown>\<close> is an association list in key order; assigning a property is
  \<^const>\<open>AList.update\<close> (an existing key keeps its place, a new one goes last).
\<close>

type_synonym obj = "(string \<times> json) list"

definition Object_keys :: "obj \<Rightarrow> string list" where
  "Object_keys m = remdups (map fst m)"

section \<open>The incoming payload (\<open>IncomingLogData\<close>)\<close>

record log_part =
  lg_description :: "string option"
  lg_user_input :: "string option"

record classification =
  cl_domain :: "string option"
  cl_activity :: "string option"

record action_part =
  ac_action :: "string option"
  ac_priority :: "string option"

record payload =
  p_log :: "log_part option"
  p_classification :: "classification option"
  p_metadata :: "obj option"
  p_context :: "obj option"
  p_action :: "action_part option"
  p_moodScore :: "number option"
  p_energyLevel :: "number option"
  p_productivityScore :: "number option"
  p_stressLevel :: "number option"
  p_satisfactionScore :: "number option"
  p_location :: "string option"
  p_timeOfDay :: "string option"
  p_durationMinutes :: "number option"
  p_amount :: "number option"
  p_currency :: "string option"
  p_sentiment :: "string option"
  p_relatedLogIds :: "number list option"
  p_goalId :: "number option"

section \<open>Score inference (\<open>saveLogEntry\<close>, the three keyword blocks)\<close>

definition inferMoodScore :: "string \<Rightarrow> number" where
  "inferMoodScore description =
     (let desc = toLowerCase description in
      if str_includes desc ''exhausted'' \<or> str_includes desc ''tired'' \<or>
         str_includes desc ''guilty'' \<or> str_includes desc ''sad'' \<or>
         str_includes desc ''depressed'' then 3
      else if str_includes desc ''good'' \<or> str_includes desc ''happy'' \<or>
         str_includes desc ''won'' \<or> str_includes desc ''excited'' \<or>
         str_includes desc ''great'' then 8
      else if str_includes desc ''okay'' \<or> str_includes desc ''fine'' \<or>
         str_includes desc ''normal'' then 6
      else 5)"

definition inferEnergyLevel :: "string \<Rightarrow> number" where
  "inferEnergyLevel description =
     (let desc = toLowerCase description in
      if str_includes desc ''exhausted'' \<or> str_includes desc ''tired'' \<or>
         str_includes desc ''drained'' \<or> str_includes desc ''worn out'' then 2
      else if str_includes desc ''energetic'' \<or> str_includes desc ''excited'' \<or>
         str_includes desc ''active'' \<or> str_includes desc ''pumped'' then 8
      else 5)"

definition inferProductivityScore :: "string \<Rightarrow> number" where
  "inferProductivityScore description =
     (let desc = toLowerCase description in
      if str_includes desc ''working'' \<or> str_includes desc ''solved'' \<or>
         str_includes desc ''completed'' \<or> str_includes desc ''won'' \<or>
         str_includes desc ''finished'' then 8
      else if str_includes desc ''bug'' \<or> str_includes desc ''couldn't'' \<or>
         str_includes desc ''failed'' \<or> str_includes desc ''stuck'' then 3
      else 5)"

text \<open>
  The rule tables as the specification words them: an ordered list of rules, each a keyword
  set with a score; the first rule with a keyword occurring in the text wins, else the
  default.
\<close>

fun spec_first_match :: "(string list \<times> number) list \<Rightarrow> number \<Rightarrow> string \<Rightarrow> number" where
  "spec_first_match [] dflt text = dflt"
| "spec_first_match ((kws, score) # rules) dflt text =
     (if list_ex (str_includes text) kws then score else spec_first_match rules dflt text)"

definition spec_mood_rules :: "(string list \<times> number) list" where
  "spec_mood_rules =
     [([''exhausted'', ''tired'', ''guilty'', ''sad'', ''depressed''], 3),
      ([''good'', ''happy'', ''won'', ''excited'', ''great''], 8),
      ([''okay'', ''fine'', ''normal''], 6)]"

definition spec_energy_rules :: "(string list \<times> number) list" where
  "spec_energy_rules =
     [([''exhausted'', ''tired'', ''drained'', ''worn out''], 2),
      ([''energetic'', ''excited'', ''active'', ''pumped''], 8)]"

definition spec_productivity_rules :: "(string list \<times> number) list" where
  "spec_productivity_rules =
     [([''working'', ''solved'', ''completed'', ''won'', ''finished''], 8),
      ([''bug'', ''couldn't'', ''failed'', ''stuck''], 3)]"

section \<open>The canonical insert record\<close>

text \<open>
  \<open>amount.toString()\<close> is kept symbolic: the decimal text of a number is represented by the
  number it denotes.
\<close>

datatype decimal_text = DecimalText number

text \<open>
  The values handed to \<open>db.insert(logs).values(...)\<close>. A column that the insert leaves out
  (\<open>aiAction\<close> in \<open>saveLogEntry\<close>, the optional columns in \<open>saveChatMessage\<close>) is null.
\<close>

record log_values =
  lv_content :: string
  lv_description :: string
  lv_userInput :: string
  lv_domainId :: "int option"
  lv_activityId :: "int option"
  lv_moodScore :: int
  lv_energyLevel :: int
  lv_productivityScore :: int
  lv_stressLevel :: "int option"
  lv_satisfactionScore :: "int option"
  lv_metadata :: "obj option"
  lv_location :: "string option"
  lv_timeOfDay :: "string option"
  lv_durationMinutes :: "number option"
  lv_amount :: "decimal_text option"
  lv_currency :: "string option"
  lv_sentiment :: "string option"
  lv_priority :: "string option"
  lv_relatedLogIds :: "number list option"
  lv_goalId :: "number option"
  lv_aiAction :: "string option"

section \<open>The Log Normalizer (\<open>saveLogEntry\<close>, the part before the insert)\<close>

text \<open>Lines 104--113: trimmed description and user input with their fallbacks.\<close>

definition normDescription :: "payload \<Rightarrow> string" where
  "normDescription data =
     (let description = (case p_log data of None \<Rightarrow> []
                         | Some l \<Rightarrow> (case lg_description l of None \<Rightarrow> [] | Some d \<Rightarrow> trim d));
          userInput = (case p_log data of None \<Rightarrow> []
                       | Some l \<Rightarrow> (case lg_user_input l of None \<Rightarrow> [] | Some u \<Rightarrow> trim u))
      in if description = [] then (if userInput \<noteq> [] then userInput else ''No description provided'')
         else description)"

definition normUserInput :: "payload \<Rightarrow> string" where
  "normUserInput data =
     (let userInput = (case p_log data of None \<Rightarrow> []
                       | Some l \<Rightarrow> (case lg_user_input l of None \<Rightarrow> [] | Some u \<Rightarrow> trim u))
      in if userInput = [] then normDescription data else userInput)"

text \<open>Lines 116--117: the names handed to the taxonomy resolver.\<close>

definition domainNameOf :: "payload \<Rightarrow> string" where
  "domainNameOf data = str_or (Option.bind (p_classification data) cl_domain) ''General''"

definition activityNameOf :: "payload \<Rightarrow> string" where
  "activityNameOf data = str_or (Option.bind (p_classification data) cl_activity) ''General''"

text \<open>Lines 123--166: the three mandatory scores, inferred when absent, then clamped.\<close>

definition finalMoodScore :: "payload \<Rightarrow> int" where
  "finalMoodScore data =
     clampRound (case p_moodScore data of None \<Rightarrow> inferMoodScore (normDescription data)
                 | Some v \<Rightarrow> v)"

definition finalEnergyLevel :: "payload \<Rightarrow> int" where
  "finalEnergyLevel data =
     clampRound (case p_energyLevel data of None \<Rightarrow> inferEnergyLevel (normDescription data)
                 | Some v \<Rightarrow> v)"

definition finalProductivityScore :: "payload \<Rightarrow> int" where
  "finalProductivityScore data =
     clampRound (case p_productivityScore data of
                   None \<Rightarrow> inferProductivityScore (normDescription data)
                 | Some v \<Rightarrow> v)"

text \<open>Lines 181--204: the metadata object; \<open>None\<close> is \<open>null\<close>.\<close>

definition aiActionOf :: "payload \<Rightarrow> string" where
  "aiActionOf data = str_or (Option.bind (p_action data) ac_action) ''acknowledge''"

definition aiPriorityOf :: "payload \<Rightarrow> string" where
  "aiPriorityOf data = str_or (Option.bind (p_action data) ac_priority) ''medium''"

text \<open>Truthiness of an optional object: any object is truthy, \<open>undefined\<close> and \<open>null\<close> are not.\<close>

definition present :: "'a option \<Rightarrow> bool" where
  "present x = (case x of None \<Rightarrow> False | Some v \<Rightarrow> True)"

definition hasKeys :: "obj option \<Rightarrow> bool" where
  "hasKeys m = (case m of None \<Rightarrow> False | Some kv \<Rightarrow> length (Object_keys kv) > 0)"

definition addContext :: "payload \<Rightarrow> obj \<Rightarrow> obj" where
  "addContext data metadata =
     (if hasKeys (p_context data)
      then AList.update ''aiContext'' (JObj (the (p_context data))) metadata
      else metadata)"

definition assembleMetadata :: "payload \<Rightarrow> obj option" where
  "assembleMetadata data =
     (if hasKeys (p_metadata data) then
        Some (addContext data
          (AList.update ''aiPriority'' (JStr (aiPriorityOf data))
            (AList.update ''aiAction'' (JStr (aiActionOf data)) (the (p_metadata data)))))
      else if present (p_action data) \<or> present (p_context data) then
        Some (addContext data
          [(''aiAction'', JStr (aiActionOf data)), (''aiPriority'', JStr (aiPriorityOf data))])
      else None)"

text \<open>Lines 306--311: what is written to the \<open>metadata\<close> column.\<close>

definition storedMetadata :: "payload \<Rightarrow> obj option" where
  "storedMetadata data =
     (if hasKeys (assembleMetadata data) then assembleMetadata data else None)"

text \<open>Lines 260--266 and 284--290: the two enumerated columns.\<close>

definition validTimeOfDay :: "string list" where
  "validTimeOfDay = [''morning'', ''afternoon'', ''evening'', ''night'']"

definition validSentiments :: "string list" where
  "validSentiments = [''positive'', ''negative'', ''neutral'']"

definition storedTimeOfDay :: "payload \<Rightarrow> string option" where
  "storedTimeOfDay data =
     (case p_timeOfDay data of
        None \<Rightarrow> None
      | Some t \<Rightarrow> if t \<noteq> [] \<and> List.member validTimeOfDay (toLowerCase t)
                  then Some (toLowerCase t) else None)"

definition storedSentiment :: "payload \<Rightarrow> string option" where
  "storedSentiment data =
     (case p_sentiment data of
        None \<Rightarrow> None
      | Some s \<Rightarrow> if s \<noteq> [] \<and> List.member validSentiments (toLowerCase s)
                  then Some (toLowerCase s) else None)"

text \<open>Lines 275--282: the financial pair.\<close>

definition amountKept :: "payload \<Rightarrow> bool" where
  "amountKept data = (case p_amount data of None \<Rightarrow> False | Some a \<Rightarrow> a \<noteq> 0 \<and> a > 0)"

definition storedAmount :: "payload \<Rightarrow> decimal_text option" where
  "storedAmount data = (if amountKept data then Some (DecimalText (the (p_amount data))) else None)"

definition storedCurrency :: "payload \<Rightarrow> string option" where
  "storedCurrency data =
     (if amountKept data then
        Some (case p_currency data of
                None \<Rightarrow> ''INR''
              | Some c \<Rightarrow> if c \<noteq> [] \<and> trim c \<noteq> [] then toUpperCase c else ''INR'')
      else None)"

text \<open>Lines 169--177, 241--258, 268--273, 292--304: the remaining optional columns.\<close>

definition storedLocation :: "payload \<Rightarrow> string option" where
  "storedLocation data =
     (case p_location data of
        None \<Rightarrow> None
      | Some l \<Rightarrow> if l \<noteq> [] \<and> trim l \<noteq> [] then Some (trim l) else None)"

definition storedDuration :: "payload \<Rightarrow> number option" where
  "storedDuration data =
     (case p_durationMinutes data of
        None \<Rightarrow> None
      | Some d \<Rightarrow> if d \<noteq> 0 \<and> d > 0 then Some d else None)"

definition storedRelatedLogIds :: "payload \<Rightarrow> number list option" where
  "storedRelatedLogIds data =
     (case p_relatedLogIds data of
        None \<Rightarrow> None
      | Some ids \<Rightarrow> if length ids > 0 then Some ids else None)"

definition storedGoalId :: "payload \<Rightarrow> number option" where
  "storedGoalId data =
     (case p_goalId data of None \<Rightarrow> None | Some g \<Rightarrow> if g \<noteq> 0 then Some g else None)"

definition buildInsertData :: "payload \<Rightarrow> int \<Rightarrow> int \<Rightarrow> log_values" where
  "buildInsertData data domainId activityId =
     \<lparr> lv_content = normUserInput data,
       lv_description = normDescription data,
       lv_userInput = normUserInput data,
       lv_domainId = Some domainId,
       lv_activityId = Some activityId,
       lv_moodScore = finalMoodScore data,
       lv_energyLevel = finalEnergyLevel data,
       lv_productivityScore = finalProductivityScore data,
       lv_stressLevel = map_option clampRound (p_stressLevel data),
       lv_satisfactionScore = map_option clampRound (p_satisfactionScore data),
       lv_metadata = storedMetadata data,
       lv_location = storedLocation data,
       lv_timeOfDay = storedTimeOfDay data,
       lv_durationMinutes = storedDuration data,
       lv_amount = storedAmount data,
       lv_currency = storedCurrency data,
       lv_sentiment = storedSentiment data,
       lv_priority = Some (aiPriorityOf data),
       lv_relatedLogIds = storedRelatedLogIds data,
       lv_goalId = storedGoalId data,
       lv_aiAction = None \<rparr>"

section \<open>The storage collaborator\<close>

text \<open>
  The three tables of \<open>db/schema.ts\<close> that the pipeline touches, each with the last value of
  its \<open>serial\<close> sequence. \<open>online\<close> is false when the driver throws on every statement
  (the only failure modelled; it is what the \<open>try/catch\<close> of each action answers to).
  A \<open>select ... limit 1\<close> without \<open>order by\<close> is taken to scan in storage order.
  An insert draws the next value of the sequence, which is taken to be ahead of every
  stored id (no other writer sets ids by hand).
\<close>

record domain_row =
  d_id :: int
  d_name :: string
  d_color :: "string option"
  d_isActive :: "bool option"

record activity_row =
  a_id :: int
  a_name :: string
  a_domainId :: "int option"
  a_isActive :: "bool option"

record log_row =
  l_id :: int
  l_createdAt :: "int option"
  l_values :: log_values

record store =
  domains :: "domain_row list"
  activities :: "activity_row list"
  logs :: "log_row list"
  domains_seq :: int
  activities_seq :: int
  logs_seq :: int
  online :: bool

datatype db_error = DbError

text \<open>\<open>db.insert(logs).values(v)\<close>; \<open>createdAt\<close> takes its default, the current time.\<close>

definition insert_log :: "store \<Rightarrow> int \<Rightarrow> log_values \<Rightarrow> db_error + store" where
  "insert_log st now v =
     (if \<not> online st then Inl DbError
      else Inr (st\<lparr> logs := logs st @ [\<lparr> l_id = logs_seq st + 1, l_createdAt = Some now,
                                            l_values = v \<rparr>],
                   logs_seq := logs_seq st + 1 \<rparr>))"

section \<open>The Taxonomy Resolver\<close>

definition domainColors :: "(string \<times> string) list" where
  "domainColors =
     [(''work'', ''#3B82F6''),
      (''health'', ''#EF4444''),
      (''finance'', ''#F59E0B''),
      (''social'', ''#10B981''),
      (''growth'', ''#8B5CF6''),
      (''leisure'', ''#EC4899''),
      (''general'', ''#6B7280'')]"

text \<open>
  \<open>domainColors[normalized]\<close> is read on the table's own keys (\<^const>\<open>map_of\<close>); names
  that a JavaScript object inherits, such as \<open>constructor\<close>, are outside the model.
\<close>

text \<open>The name under which \<open>getOrCreateDomain\<close> looks a domain up and inserts it.\<close>

definition capitalized :: "string \<Rightarrow> string" where
  "capitalized domainName =
     toUpperCase (take 1 (trim domainName)) @ toLowerCase (drop 1 (trim domainName))"

definition getOrCreateDomain :: "store \<Rightarrow> string \<Rightarrow> db_error + (int \<times> store)" where
  "getOrCreateDomain st domainName =
     (let normalized = toLowerCase (trim domainName) in
      if \<not> online st then Inl DbError
      else (case filter (\<lambda>d. d_name d = capitalized domainName) (domains st) of
              existing # _ \<Rightarrow> Inr (d_id existing, st)
            | [] \<Rightarrow>
                let newDomain =
                      \<lparr> d_id = domains_seq st + 1,
                        d_name = capitalized domainName,
                        d_color = Some (case map_of domainColors normalized of
                                          Some c \<Rightarrow> c
                                        | None \<Rightarrow> ''#6B7280''),
                        d_isActive = Some True \<rparr>
                in Inr (d_id newDomain,
                        st\<lparr> domains := domains st @ [newDomain],
                            domains_seq := domains_seq st + 1 \<rparr>)))"

definition getOrCreateActivity :: "store \<Rightarrow> string \<Rightarrow> int \<Rightarrow> db_error + (int \<times> store)" where
  "getOrCreateActivity st activityName domainId =
     (let normalized = trim activityName in
      if \<not> online st then Inl DbError
      else (case filter (\<lambda>a. a_name a = normalized \<and> a_domainId a = Some domainId)
                   (activities st) of
              existing # _ \<Rightarrow> Inr (a_id existing, st)
            | [] \<Rightarrow>
                let newActivity =
                      \<lparr> a_id = activities_seq st + 1,
                        a_name = normalized,
                        a_domainId = Some domainId,
                        a_isActive = Some True \<rparr>
                in Inr (a_id newActivity,
                        st\<lparr> activities := activities st @ [newActivity],
                            activities_seq := activities_seq st + 1 \<rparr>)))"

section \<open>\<open>saveLogEntry\<close>\<close>

datatype save_result = SaveOk int int | SaveFailed string

definition saveLogEntry :: "store \<Rightarrow> int \<Rightarrow> payload \<Rightarrow> save_result \<times> store" where
  "saveLogEntry st now data =
     (case getOrCreateDomain st (domainNameOf data) of
        Inl e \<Rightarrow> (SaveFailed ''Database rejected the log'', st)
      | Inr (domainId, st1) \<Rightarrow>
          (case getOrCreateActivity st1 (activityNameOf data) domainId of
             Inl e \<Rightarrow> (SaveFailed ''Database rejected the log'', st1)
           | Inr (activityId, st2) \<Rightarrow>
               (case insert_log st2 now (buildInsertData data domainId activityId) of
                  Inl e \<Rightarrow> (SaveFailed ''Database rejected the log'', st2)
                | Inr st3 \<Rightarrow> (SaveOk domainId activityId, st3))))"

section \<open>\<open>saveChatMessage\<close>\<close>

datatype role = User | Assistant

record chat_message =
  m_role :: role
  m_content :: string
  m_timestamp :: int

definition role_text :: "role \<Rightarrow> string" where
  "role_text r = (case r of User \<Rightarrow> ''user'' | Assistant \<Rightarrow> ''assistant'')"

datatype chat_result = ChatOk | ChatFailed string

text \<open>Lines 20--25: the \<open>General\<close> domain, inserted with its name alone when absent.\<close>

definition chatDomain :: "store \<Rightarrow> db_error + (int \<times> store)" where
  "chatDomain st =
     (if \<not> online st then Inl DbError
      else (case filter (\<lambda>d. d_name d = ''General'') (domains st) of
              existing # _ \<Rightarrow> Inr (d_id existing, st)
            | [] \<Rightarrow>
                let newDomain = \<lparr> d_id = domains_seq st + 1, d_name = ''General'',
                                  d_color = None, d_isActive = Some True \<rparr>
                in Inr (d_id newDomain,
                        st\<lparr> domains := domains st @ [newDomain],
                            domains_seq := domains_seq st + 1 \<rparr>)))"

text \<open>Lines 28--38: the \<open>Chat\<close> activity, selected by \<open>eq(activities.name, 'Chat')\<close> only.\<close>

definition chatActivity :: "store \<Rightarrow> int \<Rightarrow> db_error + (int \<times> store)" where
  "chatActivity st domainId =
     (if \<not> online st then Inl DbError
      else (case filter (\<lambda>a. a_name a = ''Chat'') (activities st) of
              existing # _ \<Rightarrow> Inr (a_id existing, st)
            | [] \<Rightarrow>
                let newActivity = \<lparr> a_id = activities_seq st + 1, a_name = ''Chat'',
                                    a_domainId = Some domainId, a_isActive = Some True \<rparr>
                in Inr (a_id newActivity,
                        st\<lparr> activities := activities st @ [newActivity],
                            activities_seq := activities_seq st + 1 \<rparr>)))"

definition chatMetadata :: "chat_message \<Rightarrow> chat_message list option \<Rightarrow> obj" where
  "chatMetadata message conversationContext =
     (let metadata = [(''chatRole'', JStr (role_text (m_role message))),
                      (''isChatMessage'', JBool True)]
      in case conversationContext of
           None \<Rightarrow> metadata
         | Some ctx \<Rightarrow>
             if length ctx > 0 then
               AList.update ''conversationContext''
                 (JArr (map (\<lambda>m. JObj [(''role'', JStr (role_text (m_role m))),
                                        (''content'', JStr (take 200 (m_content m))),
                                        (''timestamp'', JDate (m_timestamp m))]) ctx))
                 metadata
             else metadata)"

definition chatInsertData ::
  "chat_message \<Rightarrow> chat_message list option \<Rightarrow> int \<Rightarrow> int \<Rightarrow> log_values" where
  "chatInsertData message conversationContext domainId activityId =
     \<lparr> lv_content = m_content message,
       lv_description = (if m_role message = User
                         then ''User chat: '' @ take 100 (m_content message)
                         else ''AI response: '' @ take 100 (m_content message)),
       lv_userInput = m_content message,
       lv_domainId = Some domainId,
       lv_activityId = Some activityId,
       lv_moodScore = 5,
       lv_energyLevel = 5,
       lv_productivityScore = 5,
       lv_stressLevel = None,
       lv_satisfactionScore = None,
       lv_metadata = Some (chatMetadata message conversationContext),
       lv_location = None,
       lv_timeOfDay = None,
       lv_durationMinutes = None,
       lv_amount = None,
       lv_currency = None,
       lv_sentiment = None,
       lv_priority = Some ''low'',
       lv_relatedLogIds = None,
       lv_goalId = None,
       lv_aiAction = Some (if m_role message = User then ''question'' else ''insight'') \<rparr>"

definition saveChatMessage ::
  "store \<Rightarrow> int \<Rightarrow> chat_message \<Rightarrow> chat_message list option \<Rightarrow> chat_result \<times> store" where
  "saveChatMessage st now message conversationContext =
     (case chatDomain st of
        Inl e \<Rightarrow> (ChatFailed ''Failed to save chat message'', st)
      | Inr (domainId, st1) \<Rightarrow>
          (case chatActivity st1 domainId of
             Inl e \<Rightarrow> (ChatFailed ''Failed to save chat message'', st1)
           | Inr (activityId, st2) \<Rightarrow>
               (case insert_log st2 now
                       (chatInsertData message conversationContext domainId activityId) of
                  Inl e \<Rightarrow> (ChatFailed ''Failed to save chat message'', st2)
                | Inr st3 \<Rightarrow> (ChatOk, st3))))"

section \<open>The Retrieval Engine (\<open>getMemory.ts\<close>, \<open>getLogs.ts\<close>)\<close>

text \<open>The left joins on the primary keys of \<open>domains\<close> and \<open>activities\<close>.\<close>

definition joinedDomainName :: "store \<Rightarrow> int option \<Rightarrow> string option" where
  "joinedDomainName st domainId =
     (case domainId of
        None \<Rightarrow> None
      | Some i \<Rightarrow> (case filter (\<lambda>d. d_id d = i) (domains st) of
                    [] \<Rightarrow> None
                  | d # _ \<Rightarrow> Some (d_name d)))"

definition joinedActivityName :: "store \<Rightarrow> int option \<Rightarrow> string option" where
  "joinedActivityName st activityId =
     (case activityId of
        None \<Rightarrow> None
      | Some i \<Rightarrow> (case filter (\<lambda>a. a_id a = i) (activities st) of
                    [] \<Rightarrow> None
                  | a # _ \<Rightarrow> Some (a_name a)))"

text \<open>
  \<open>orderBy(desc(logs.createdAt))\<close>: later rows first, rows without a timestamp before all
  others (the storage engine's default for a descending sort). The key is ascending in the
  order of \<^typ>\<open>int option\<close>, where \<open>None\<close> is least.
\<close>

definition descCreatedAt :: "log_row \<Rightarrow> int option" where
  "descCreatedAt l = map_option uminus (l_createdAt l)"

subsection \<open>Keyword search\<close>

record search_result =
  sr_id :: int
  sr_date :: "int option"
  sr_content :: string
  sr_description :: string
  sr_userInput :: string
  sr_domain :: string
  sr_activity :: string
  sr_moodScore :: int
  sr_energyLevel :: int
  sr_productivityScore :: int
  sr_metadata :: "obj option"
  sr_location :: "string option"
  sr_amount :: "decimal_text option"

definition toSearchResult :: "store \<Rightarrow> log_row \<Rightarrow> search_result" where
  "toSearchResult st lg =
     \<lparr> sr_id = l_id lg,
       sr_date = l_createdAt lg,
       sr_content = lv_content (l_values lg),
       sr_description = lv_description (l_values lg),
       sr_userInput = lv_userInput (l_values lg),
       sr_domain = str_or (joinedDomainName st (lv_domainId (l_values lg))) ''Unknown'',
       sr_activity = str_or (joinedActivityName st (lv_activityId (l_values lg))) ''Unknown'',
       sr_moodScore = lv_moodScore (l_values lg),
       sr_energyLevel = lv_energyLevel (l_values lg),
       sr_productivityScore = lv_productivityScore (l_values lg),
       sr_metadata = lv_metadata (l_values lg),
       sr_location = lv_location (l_values lg),
       sr_amount = lv_amount (l_values lg) \<rparr>"

text \<open>Lines 10--13 of \<open>getRelatedLogs\<close>: the text handed to \<open>to_tsquery\<close>.\<close>

definition searchTerms :: "string \<Rightarrow> string" where
  "searchTerms userQuery = join '' | '' (filter (\<lambda>w. length w > 3) (split_space userQuery))"

text \<open>The text that \<open>to_tsvector\<close> indexes for a row.\<close>

definition searchDocument :: "log_row \<Rightarrow> string" where
  "searchDocument lg =
     lv_description (l_values lg) @ '' '' @ lv_userInput (l_values lg) @ '' '' @
     lv_content (l_values lg)"

text \<open>
  The text search itself belongs to the storage engine. It is a parameter \<open>fts\<close>: for a query
  text either \<open>None\<close> (\<open>to_tsquery\<close> rejects it and the statement throws) or the predicate
  that the parsed query is on a document.

  \<open>getRelatedLogs\<close> returns its result together with the statements it sent to the storage,
  each named by its query text.
\<close>

definition getRelatedLogs ::
  "(string \<Rightarrow> (string \<Rightarrow> bool) option) \<Rightarrow> store \<Rightarrow> string \<Rightarrow> search_result list \<times> string list" where
  "getRelatedLogs fts st userQuery =
     (if searchTerms userQuery = [] then ([], [])
      else if \<not> online st then ([], [searchTerms userQuery])
      else (case fts (searchTerms userQuery) of
              None \<Rightarrow> ([], [searchTerms userQuery])
            | Some matches \<Rightarrow>
                (map (toSearchResult st)
                   (take 5 (sort_key descCreatedAt
                      (filter (\<lambda>l. matches (searchDocument l)) (logs st)))),
                 [searchTerms userQuery])))"

subsection \<open>Recency fetch\<close>

record LogEntry =
  le_id :: int
  le_content :: string
  le_description :: string
  le_userInput :: string
  le_domainName :: "string option"
  le_activityName :: "string option"
  le_moodScore :: int
  le_energyLevel :: int
  le_productivityScore :: int
  le_stressLevel :: "int option"
  le_satisfactionScore :: "int option"
  le_metadata :: "obj option"
  le_location :: "string option"
  le_timeOfDay :: "string option"
  le_durationMinutes :: "number option"
  le_amount :: "decimal_text option"
  le_currency :: "string option"
  le_sentiment :: "string option"
  le_priority :: "string option"
  le_createdAt :: "int option"

definition toLogEntry :: "store \<Rightarrow> log_row \<Rightarrow> LogEntry" where
  "toLogEntry st lg =
     \<lparr> le_id = l_id lg,
       le_content = lv_content (l_values lg),
       le_description = lv_description (l_values lg),
       le_userInput = lv_userInput (l_values lg),
       le_domainName = joinedDomainName st (lv_domainId (l_values lg)),
       le_activityName = joinedActivityName st (lv_activityId (l_values lg)),
       le_moodScore = lv_moodScore (l_values lg),
       le_energyLevel = lv_energyLevel (l_values lg),
       le_productivityScore = lv_productivityScore (l_values lg),
       le_stressLevel = lv_stressLevel (l_values lg),
       le_satisfactionScore = lv_satisfactionScore (l_values lg),
       le_metadata = lv_metadata (l_values lg),
       le_location = lv_location (l_values lg),
       le_timeOfDay = lv_timeOfDay (l_values lg),
       le_durationMinutes = lv_durationMinutes (l_values lg),
       le_amount = lv_amount (l_values lg),
       le_currency = lv_currency (l_values lg),
       le_sentiment = lv_sentiment (l_values lg),
       le_priority = lv_priority (l_values lg),
       le_createdAt = l_createdAt lg \<rparr>"

text \<open>\<open>and(gte(logs.createdAt, startDate), lte(logs.createdAt, endDate))\<close>.\<close>

definition inDateRange :: "int \<Rightarrow> int \<Rightarrow> log_row \<Rightarrow> bool" where
  "inDateRange startDate endDate l =
     (case l_createdAt l of None \<Rightarrow> False | Some t \<Rightarrow> startDate \<le> t \<and> t \<le> endDate)"

definition getLogsByDateRange :: "store \<Rightarrow> int \<Rightarrow> int \<Rightarrow> LogEntry list" where
  "getLogsByDateRange st startDate endDate =
     (if \<not> online st then []
      else map (toLogEntry st)
             (sort_key descCreatedAt (filter (inDateRange startDate endDate) (logs st))))"

text \<open>
  Calendar arithmetic of \<open>Date\<close>, as ECMAScript defines it on time values (milliseconds
  since the epoch). The server's time zone enters through \<open>LocalTZA(t, isUTC)\<close>, the zone's
  offset from UTC in milliseconds: at the instant \<open>t\<close> when \<open>isUTC\<close>, at the wall-clock
  time \<open>t\<close> otherwise (inside a clock change the engine takes the offset before the
  change). It is a parameter \<open>tza\<close>, so daylight-saving zones are covered. Time values
  beyond the range of \<open>Date\<close> are outside the model.
\<close>

type_synonym zone = "int \<Rightarrow> bool \<Rightarrow> int"

definition dayMs :: int where
  "dayMs = 86400000"

definition LocalTime :: "zone \<Rightarrow> int \<Rightarrow> int" where
  "LocalTime tza t = t + tza t True"

definition UTC :: "zone \<Rightarrow> int \<Rightarrow> int" where
  "UTC tza t = t - tza t False"

definition Day :: "int \<Rightarrow> int" where
  "Day t = t div dayMs"

definition TimeWithinDay :: "int \<Rightarrow> int" where
  "TimeWithinDay t = t mod dayMs"

definition MakeTime :: "int \<Rightarrow> int \<Rightarrow> int \<Rightarrow> int \<Rightarrow> int" where
  "MakeTime hour minute sec ms = hour * 3600000 + minute * 60000 + sec * 1000 + ms"

text \<open>
  \<open>d.setDate(d.getDate() - days)\<close>: the local day number goes back by \<open>days\<close>
  (\<open>MakeDay\<close> of the local year and month with the date \<open>getDate() - days\<close>), the local
  time within the day stays, and the result is read back as an instant.
\<close>

definition setDate_getDate_minus :: "zone \<Rightarrow> int \<Rightarrow> int \<Rightarrow> int" where
  "setDate_getDate_minus tza t days =
     (let lt = LocalTime tza t
      in UTC tza ((Day lt - days) * dayMs + TimeWithinDay lt))"

text \<open>\<open>d.setHours(hour, minute, sec, ms)\<close>: the given time on the local day of \<open>d\<close>.\<close>

definition setHours :: "zone \<Rightarrow> int \<Rightarrow> int \<Rightarrow> int \<Rightarrow> int \<Rightarrow> int \<Rightarrow> int" where
  "setHours tza t hour minute sec ms =
     UTC tza (Day (LocalTime tza t) * dayMs + MakeTime hour minute sec ms)"

text \<open>Lines 300--305 of \<open>getRecentLogs\<close>; \<open>now\<close> is the value of \<open>new Date()\<close>.\<close>

definition recentStartDate :: "zone \<Rightarrow> int \<Rightarrow> int \<Rightarrow> int" where
  "recentStartDate tza now days = setHours tza (setDate_getDate_minus tza now days) 0 0 0 0"

definition recentEndDate :: "zone \<Rightarrow> int \<Rightarrow> int" where
  "recentEndDate tza now = setHours tza now 23 59 59 999"

definition getRecentLogs :: "zone \<Rightarrow> store \<Rightarrow> int \<Rightarrow> int \<Rightarrow> LogEntry list" where
  "getRecentLogs tza st now days =
     getLogsByDateRange st (recentStartDate tza now days) (recentEndDate tza now)"

subsection \<open>The merge of \<open>handleSendMessage\<close> (\<open>ChatPage.tsx\<close>, step 4)\<close>

record formatted_recent =
  fr_id :: int
  fr_date :: "int option"
  fr_domain :: "string option"
  fr_activity :: "string option"
  fr_description :: string
  fr_moodScore :: int
  fr_energyLevel :: int
  fr_productivityScore :: int
  fr_metadata :: "obj option"

text \<open>\<open>r.id || (r.date ? r.date.getTime() : 0)\<close>: the id, or the timestamp when the id is 0.\<close>

definition searchIdentity :: "search_result \<Rightarrow> int" where
  "searchIdentity r =
     (if sr_id r \<noteq> 0 then sr_id r else (case sr_date r of Some t \<Rightarrow> t | None \<Rightarrow> 0))"

definition logIdentity :: "LogEntry \<Rightarrow> int" where
  "logIdentity lg =
     (if le_id lg \<noteq> 0 then le_id lg
      else (case le_createdAt lg of Some t \<Rightarrow> t | None \<Rightarrow> 0))"

definition searchResultIds :: "search_result list \<Rightarrow> int set" where
  "searchResultIds searchResults = set (map searchIdentity searchResults)"

definition uniqueRecentLogs :: "search_result list \<Rightarrow> LogEntry list \<Rightarrow> LogEntry list" where
  "uniqueRecentLogs searchResults recentLogs =
     filter (\<lambda>lg. logIdentity lg \<notin> searchResultIds searchResults) recentLogs"

definition formatRecent :: "LogEntry \<Rightarrow> formatted_recent" where
  "formatRecent lg =
     \<lparr> fr_id = le_id lg,
       fr_date = le_createdAt lg,
       fr_domain = (case le_domainName lg of None \<Rightarrow> None
                    | Some n \<Rightarrow> if n = [] then None else Some n),
       fr_activity = (case le_activityName lg of None \<Rightarrow> None
                      | Some n \<Rightarrow> if n = [] then None else Some n),
       fr_description = (if le_description lg \<noteq> [] then le_description lg
                         else le_content lg),
       fr_moodScore = le_moodScore lg,
       fr_energyLevel = le_energyLevel lg,
       fr_productivityScore = le_productivityScore lg,
       fr_metadata = le_metadata lg \<rparr>"

definition formattedRecentLogs ::
  "search_result list \<Rightarrow> LogEntry list \<Rightarrow> formatted_recent list" where
  "formattedRecentLogs searchResults recentLogs =
     map formatRecent (uniqueRecentLogs searchResults recentLogs)"

text \<open>An entry of the context list remembers which of the two reads it came from.\<close>

datatype context_log = FromSearch search_result | FromRecent formatted_recent

definition contextLogs :: "search_result list \<Rightarrow> LogEntry list \<Rightarrow> context_log list" where
  "contextLogs searchResults recentLogs =
     map FromSearch searchResults @ map FromRecent (formattedRecentLogs searchResults recentLogs)"

definition context_id :: "context_log \<Rightarrow> int" where
  "context_id c = (case c of FromSearch r \<Rightarrow> sr_id r | FromRecent f \<Rightarrow> fr_id f)"

definition context_date :: "context_log \<Rightarrow> int option" where
  "context_date c = (case c of FromSearch r \<Rightarrow> sr_date r | FromRecent f \<Rightarrow> fr_date f)"

definition context_identity :: "context_log \<Rightarrow> int" where
  "context_identity c =
     (if context_id c \<noteq> 0 then context_id c
      else (case context_date c of Some t \<Rightarrow> t | None \<Rightarrow> 0))"

definition isFromSearch :: "context_log \<Rightarrow> bool" where
  "isFromSearch c = (case c of FromSearch r \<Rightarrow> True | FromRecent f \<Rightarrow> False)"

text \<open>Steps 2--4 of \<open>handleSendMessage\<close> for a given search query.\<close>

definition recentDays :: "search_result list \<Rightarrow> int" where
  "recentDays searchResults = (if length searchResults > 0 then 2 else 3)"

definition chatContext ::
  "(string \<Rightarrow> (string \<Rightarrow> bool) option) \<Rightarrow> zone \<Rightarrow> store \<Rightarrow> int \<Rightarrow> string \<Rightarrow> context_log list" where
  "chatContext fts tza st now searchQuery =
     (let searchResults = fst (getRelatedLogs fts st searchQuery);
          recentLogs = getRecentLogs tza st now (recentDays searchResults)
      in contextLogs searchResults recentLogs)"

section \<open>Concrete inputs\<close>

text \<open>The payload \<open>{}\<close> (every field absent), the freshly migrated store, and a text search
  that accepts every query text and matches no document.\<close>

definition blankPayload :: payload where
  "blankPayload =
     \<lparr> p_log = None, p_classification = None, p_metadata = None, p_context = None,
       p_action = None, p_moodScore = None, p_energyLevel = None,
       p_productivityScore = None, p_stressLevel = None, p_satisfactionScore = None,
       p_location = None, p_timeOfDay = None, p_durationMinutes = None, p_amount = None,
       p_currency = None, p_sentiment = None, p_relatedLogIds = None, p_goalId = None \<rparr>"

definition emptyStore :: store where
  "emptyStore =
     \<lparr> domains = [], activities = [], logs = [], domains_seq = 0, activities_seq = 0,
       logs_seq = 0, online = True \<rparr>"

definition matchesNothing :: "string \<Rightarrow> (string \<Rightarrow> bool) option" where
  "matchesNothing q = Some (\<lambda>document. False)"

text \<open>A text search that accepts every query text and matches every document.\<close>

definition matchesEverything :: "string \<Rightarrow> (string \<Rightarrow> bool) option" where
  "matchesEverything q = Some (\<lambda>document. True)"

text \<open>A store in which the only activity named \<open>Chat\<close> sits under the domain \<open>Hobby\<close>.\<close>

definition hobbyChatStore :: store where
  "hobbyChatStore =
     \<lparr> domains = [\<lparr> d_id = 1, d_name = ''General'', d_color = Some ''#6B7280'',
                      d_isActive = Some True \<rparr>,
                   \<lparr> d_id = 2, d_name = ''Hobby'', d_color = Some ''#6B7280'',
                      d_isActive = Some True \<rparr>],
       activities = [\<lparr> a_id = 1, a_name = ''Chat'', a_domainId = Some 2,
                         a_isActive = Some True \<rparr>],
       logs = [], domains_seq = 2, activities_seq = 1, logs_seq = 0, online = True \<rparr>"

text \<open>
  Two server zones: UTC, and New York in 2024 (five hours behind UTC, four from the clock
  change of 10 March, 07:00 UTC, to that of 3 November, 06:00 UTC).
\<close>

definition utcZone :: zone where
  "utcZone t isUTC = 0"

definition newYork2024 :: zone where
  "newYork2024 t isUTC =
     (if isUTC then (if 1710054000000 \<le> t \<and> t < 1730613600000 then - 14400000 else - 18000000)
      else (if 1710039600000 \<le> t \<and> t < 1730599200000 then - 14400000 else - 18000000))"

text \<open>A stored row with a given id and creation time, its values normalized from \<open>{}\<close>.\<close>

definition exampleRow :: "int \<Rightarrow> int \<Rightarrow> log_row" where
  "exampleRow i t =
     \<lparr> l_id = i, l_createdAt = Some t, l_values = buildInsertData blankPayload 1 1 \<rparr>"

section \<open>Score inference: the end-to-end example\<close>

lemma example_lower:
  "toLowerCase ''I finally solved the bug and feel great'' = ''i finally solved the bug and feel great''"
  by (simp add: toLowerCase_def lower_char_def)

lemma example_description:
  "normDescription (data\<lparr> p_log := Some \<lparr> lg_description = Some ''I finally solved the bug and feel great'', lg_user_input = u \<rparr>, p_moodScore := None, p_energyLevel := None, p_productivityScore := None \<rparr>)
     = ''I finally solved the bug and feel great''"
  by (simp add: normDescription_def trim_def is_space_def)

lemma inferMoodScore_table:
  "inferMoodScore d = spec_first_match spec_mood_rules 5 (toLowerCase d)"
  by (simp add: inferMoodScore_def spec_mood_rules_def Let_def)

lemma inferEnergyLevel_table:
  "inferEnergyLevel d = spec_first_match spec_energy_rules 5 (toLowerCase d)"
  by (simp add: inferEnergyLevel_def spec_energy_rules_def Let_def)

lemma inferProductivityScore_table:
  "inferProductivityScore d = spec_first_match spec_productivity_rules 5 (toLowerCase d)"
  by (simp add: inferProductivityScore_def spec_productivity_rules_def Let_def)

lemma spec_first_match_first:
  "spec_first_match rules dflt desc =
     (case filter (\<lambda>r. list_ex (str_includes desc) (fst r)) rules of
        [] \<Rightarrow> dflt
      | r # later \<Rightarrow> snd r)"
  by (induction rules dflt desc rule: spec_first_match.induct) simp_all

text \<open>
  Claim C2. A payload whose description is \<open>I finally solved the bug and feel great\<close> and
  which supplies no score is stored with mood 8, energy 5 and productivity 8, whatever its
  other fields are: \<open>great\<close> occurs and no keyword of the first mood rule does, no energy
  keyword occurs, and \<open>solved\<close> occurs (so the first productivity rule answers although
  \<open>bug\<close> occurs too). For every description, each of the three keyword blocks of the code
  computes what the specification's ordered rule table computes on the lower-cased text:
  the first rule with a keyword in the text wins, else 5. For every payload, a score that
  the caller left out is stored as the clamped value of its table on the lower-cased
  normalized description, and a score that the caller supplied is stored clamped; the table
  function returns the score of the first rule, in the listed order, one of whose keywords
  occurs in the text, and the default when there is none.
\<close>

theorem C2_keyword_inference:
  fixes data :: payload and u :: "string option" and d :: string
  defines "ex \<equiv> data\<lparr> p_log := Some \<lparr> lg_description = Some ''I finally solved the bug and feel great'', lg_user_input = u \<rparr>, p_moodScore := None, p_energyLevel := None, p_productivityScore := None \<rparr>"
  shows "lv_moodScore (buildInsertData ex domainId activityId) = 8
       \<and> lv_energyLevel (buildInsertData ex domainId activityId) = 5
       \<and> lv_productivityScore (buildInsertData ex domainId activityId) = 8
       \<and> str_includes (toLowerCase (normDescription ex)) ''great''
       \<and> \<not> list_ex (str_includes (toLowerCase (normDescription ex))) [''exhausted'', ''tired'', ''guilty'', ''sad'', ''depressed'']
       \<and> \<not> list_ex (str_includes (toLowerCase (normDescription ex))) [''exhausted'', ''tired'', ''drained'', ''worn out'', ''energetic'', ''excited'', ''active'', ''pumped'']
       \<and> str_includes (toLowerCase (normDescription ex)) ''solved''
       \<and> str_includes (toLowerCase (normDescription ex)) ''bug''
       \<and> inferMoodScore d = spec_first_match spec_mood_rules 5 (toLowerCase d)
       \<and> inferEnergyLevel d = spec_first_match spec_energy_rules 5 (toLowerCase d)
       \<and> inferProductivityScore d = spec_first_match spec_productivity_rules 5 (toLowerCase d)
       \<and> (p_moodScore data = None \<longrightarrow>
            lv_moodScore (buildInsertData data domainId activityId) =
              clampRound (spec_first_match spec_mood_rules 5 (toLowerCase (normDescription data))))
       \<and> (p_energyLevel data = None \<longrightarrow>
            lv_energyLevel (buildInsertData data domainId activityId) =
              clampRound (spec_first_match spec_energy_rules 5 (toLowerCase (normDescription data))))
       \<and> (p_productivityScore data = None \<longrightarrow>
            lv_productivityScore (buildInsertData data domainId activityId) =
              clampRound
                (spec_first_match spec_productivity_rules 5 (toLowerCase (normDescription data))))
       \<and> (\<forall>v. p_moodScore data = Some v \<longrightarrow>
            lv_moodScore (buildInsertData data domainId activityId) = clampRound v)
       \<and> (\<forall>v. p_energyLevel data = Some v \<longrightarrow>
            lv_energyLevel (buildInsertData data domainId activityId) = clampRound v)
       \<and> (\<forall>v. p_productivityScore data = Some v \<longrightarrow>
            lv_productivityScore (buildInsertData data domainId activityId) = clampRound v)
       \<and> spec_first_match rules dflt desc =
            (case filter (\<lambda>r. list_ex (str_includes desc) (fst r)) rules of
               [] \<Rightarrow> dflt
             | r # later \<Rightarrow> snd r)"
proof -
  have nd: "normDescription ex = ''I finally solved the bug and feel great''"
    unfolding ex_def by (rule example_description)
  have mood: "inferMoodScore ''I finally solved the bug and feel great'' = 8"
    by (simp add: inferMoodScore_def example_lower Let_def)
  have energy: "inferEnergyLevel ''I finally solved the bug and feel great'' = 5"
    by (simp add: inferEnergyLevel_def example_lower Let_def)
  have prod: "inferProductivityScore ''I finally solved the bug and feel great'' = 8"
    by (simp add: inferProductivityScore_def example_lower Let_def)
  have none: "p_moodScore ex = None" "p_energyLevel ex = None" "p_productivityScore ex = None"
    by (simp_all add: ex_def)
  have m: "lv_moodScore (buildInsertData ex domainId activityId) = 8"
    by (simp add: buildInsertData_def finalMoodScore_def none nd mood clampRound_def)
  have e: "lv_energyLevel (buildInsertData ex domainId activityId) = 5"
    by (simp add: buildInsertData_def finalEnergyLevel_def none nd energy clampRound_def)
  have p: "lv_productivityScore (buildInsertData ex domainId activityId) = 8"
    by (simp add: buildInsertData_def finalProductivityScore_def none nd prod clampRound_def)
  have words: "str_includes (toLowerCase (normDescription ex)) ''great''"
    "\<not> list_ex (str_includes (toLowerCase (normDescription ex))) [''exhausted'', ''tired'', ''guilty'', ''sad'', ''depressed'']"
    "\<not> list_ex (str_includes (toLowerCase (normDescription ex))) [''exhausted'', ''tired'', ''drained'', ''worn out'', ''energetic'', ''excited'', ''active'', ''pumped'']"
    "str_includes (toLowerCase (normDescription ex)) ''solved''"
    "str_includes (toLowerCase (normDescription ex)) ''bug''"
    by (simp_all add: nd example_lower)
  have r1: "inferMoodScore d = spec_first_match spec_mood_rules 5 (toLowerCase d)"
    by (simp add: inferMoodScore_def spec_mood_rules_def Let_def)
  have r2: "inferEnergyLevel d = spec_first_match spec_energy_rules 5 (toLowerCase d)"
    by (simp add: inferEnergyLevel_def spec_energy_rules_def Let_def)
  have r3: "inferProductivityScore d = spec_first_match spec_productivity_rules 5 (toLowerCase d)"
    by (simp add: inferProductivityScore_def spec_productivity_rules_def Let_def)
  have g1: "p_moodScore data = None \<longrightarrow>
            lv_moodScore (buildInsertData data domainId activityId) =
              clampRound (spec_first_match spec_mood_rules 5 (toLowerCase (normDescription data)))"
    by (simp add: buildInsertData_def finalMoodScore_def r1 [symmetric]
        inferMoodScore_table [symmetric])
  have g2: "p_energyLevel data = None \<longrightarrow>
            lv_energyLevel (buildInsertData data domainId activityId) =
              clampRound (spec_first_match spec_energy_rules 5 (toLowerCase (normDescription data)))"
    by (simp add: buildInsertData_def finalEnergyLevel_def inferEnergyLevel_table [symmetric])
  have g3: "p_productivityScore data = None \<longrightarrow>
            lv_productivityScore (buildInsertData data domainId activityId) =
              clampRound
                (spec_first_match spec_productivity_rules 5 (toLowerCase (normDescription data)))"
    by (simp add: buildInsertData_def finalProductivityScore_def
        inferProductivityScore_table [symmetric])
  have s1: "\<forall>v. p_moodScore data = Some v \<longrightarrow>
            lv_moodScore (buildInsertData data domainId activityId) = clampRound v"
    by (simp add: buildInsertData_def finalMoodScore_def)
  have s2: "\<forall>v. p_energyLevel data = Some v \<longrightarrow>
            lv_energyLevel (buildInsertData data domainId activityId) = clampRound v"
    by (simp add: buildInsertData_def finalEnergyLevel_def)
  have s3: "\<forall>v. p_productivityScore data = Some v \<longrightarrow>
            lv_productivityScore (buildInsertData data domainId activityId) = clampRound v"
    by (simp add: buildInsertData_def finalProductivityScore_def)
  show ?thesis
    by (intro conjI)
       (rule m, rule e, rule p, rule words(1), rule words(2), rule words(3), rule words(4),
        rule words(5), rule r1, rule r2, rule r3, rule g1, rule g2, rule g3, rule s1, rule s2,
        rule s3, rule spec_first_match_first)
qed

text \<open>
  A payload without scores whose description has \<open>tired\<close> and \<open>finished\<close> is stored
  with mood 3, energy 2 and productivity 8, each the first matching rule of its table; a
  payload with the scores 12, 7/2 and 0 is stored with 10, 4 and 1.
\<close>

theorem C2_keyword_inference_witness:
  "p_moodScore (blankPayload\<lparr> p_log := Some \<lparr> lg_description = Some ''Tired but finished the report'',
                                                  lg_user_input = None \<rparr> \<rparr>) = None
   \<and> p_energyLevel (blankPayload\<lparr> p_log := Some \<lparr> lg_description = Some ''Tired but finished the report'',
                                                  lg_user_input = None \<rparr> \<rparr>) = None
   \<and> p_productivityScore (blankPayload\<lparr> p_log := Some \<lparr> lg_description = Some ''Tired but finished the report'',
                                                  lg_user_input = None \<rparr> \<rparr>) = None
   \<and> lv_moodScore (buildInsertData (blankPayload\<lparr> p_log := Some \<lparr> lg_description = Some ''Tired but finished the report'',
                                                  lg_user_input = None \<rparr> \<rparr>) 1 1) = 3
   \<and> lv_energyLevel (buildInsertData (blankPayload\<lparr> p_log := Some \<lparr> lg_description = Some ''Tired but finished the report'',
                                                  lg_user_input = None \<rparr> \<rparr>) 1 1) = 2
   \<and> lv_productivityScore (buildInsertData (blankPayload\<lparr> p_log := Some \<lparr> lg_description = Some ''Tired but finished the report'',
                                                  lg_user_input = None \<rparr> \<rparr>) 1 1) = 8
   \<and> p_moodScore (blankPayload\<lparr> p_moodScore := Some 12, p_energyLevel := Some (7 / 2),
                                   p_productivityScore := Some 0 \<rparr>) = Some 12
   \<and> p_energyLevel (blankPayload\<lparr> p_moodScore := Some 12, p_energyLevel := Some (7 / 2),
                                   p_productivityScore := Some 0 \<rparr>) = Some (7 / 2)
   \<and> p_productivityScore (blankPayload\<lparr> p_moodScore := Some 12, p_energyLevel := Some (7 / 2),
                                   p_productivityScore := Some 0 \<rparr>) = Some 0
   \<and> lv_moodScore (buildInsertData (blankPayload\<lparr> p_moodScore := Some 12, p_energyLevel := Some (7 / 2),
                                   p_productivityScore := Some 0 \<rparr>) 1 1) = 10
   \<and> lv_energyLevel (buildInsertData (blankPayload\<lparr> p_moodScore := Some 12, p_energyLevel := Some (7 / 2),
                                   p_productivityScore := Some 0 \<rparr>) 1 1) = 4
   \<and> lv_productivityScore (buildInsertData (blankPayload\<lparr> p_moodScore := Some 12, p_energyLevel := Some (7 / 2),
                                   p_productivityScore := Some 0 \<rparr>) 1 1) = 1"
proof -
  let ?p = "blankPayload\<lparr> p_log := Some \<lparr> lg_description = Some ''Tired but finished the report'',
                                            lg_user_input = None \<rparr> \<rparr>"
  let ?q = "blankPayload\<lparr> p_moodScore := Some 12, p_energyLevel := Some (7 / 2),
                          p_productivityScore := Some 0 \<rparr>"
  have n: "p_moodScore ?p = None" "p_energyLevel ?p = None" "p_productivityScore ?p = None"
    by (simp_all add: blankPayload_def)
  have nd: "toLowerCase (normDescription ?p) = ''tired but finished the report''"
    by (simp add: normDescription_def trim_def is_space_def blankPayload_def)
       (simp add: toLowerCase_def lower_char_def)
  have t: "clampRound (spec_first_match spec_mood_rules 5 ''tired but finished the report'') = 3"
    "clampRound (spec_first_match spec_energy_rules 5 ''tired but finished the report'') = 2"
    "clampRound (spec_first_match spec_productivity_rules 5 ''tired but finished the report'') = 8"
    by (simp_all add: spec_mood_rules_def spec_energy_rules_def spec_productivity_rules_def
        clampRound_def)
  have sv: "p_moodScore ?q = Some 12" "p_energyLevel ?q = Some (7 / 2)"
    "p_productivityScore ?q = Some 0"
    by (simp_all add: blankPayload_def)
  have c: "clampRound 12 = 10" "clampRound (7 / 2) = 4" "clampRound 0 = 1"
    by (simp_all add: clampRound_def round_def floor_eq_iff)
  note inferred = C2_keyword_inference [where data = ?p and domainId = 1 and activityId = 1]
  note supplied = C2_keyword_inference [where data = ?q and domainId = 1 and activityId = 1]
  from n inferred have a: "lv_moodScore (buildInsertData ?p 1 1) = 3"
    "lv_energyLevel (buildInsertData ?p 1 1) = 2"
    "lv_productivityScore (buildInsertData ?p 1 1) = 8"
    unfolding nd t [symmetric] by blast+
  from sv supplied have b: "lv_moodScore (buildInsertData ?q 1 1) = 10"
    "lv_energyLevel (buildInsertData ?q 1 1) = 4"
    "lv_productivityScore (buildInsertData ?q 1 1) = 1"
    unfolding c [symmetric] by blast+
  from n a sv b show ?thesis by (intro conjI)
qed

section \<open>The metadata column\<close>

lemma hasKeys_iff: "hasKeys m = (\<exists>kv. m = Some kv \<and> kv \<noteq> [])"
  by (cases m) (simp_all add: hasKeys_def Object_keys_def)

lemma map_of_update_other: "k \<noteq> k' \<Longrightarrow> map_of (AList.update k v al) k' = map_of al k'"
  by (simp add: update_conv')

lemma map_of_update_same: "map_of (AList.update k v al) k = Some v"
  by (simp add: update_conv')

lemma update_not_Nil: "AList.update k v al \<noteq> []"
  by (cases al) simp_all

lemma addContext_not_Nil: "m \<noteq> [] \<Longrightarrow> addContext data m \<noteq> []"
  by (simp add: addContext_def update_not_Nil)

lemma assembleMetadata_not_empty: "assembleMetadata data \<noteq> Some []"
  by (simp add: assembleMetadata_def addContext_not_Nil update_not_Nil)

text \<open>
  Claim C7. The metadata column of the record built by the Log Normalizer is never the empty
  object; it is null whenever the assembled metadata has no key (or is null itself); and a
  payload with \<open>metadata = {}\<close> and neither \<open>action\<close> nor \<open>context\<close> is stored with
  null metadata.
\<close>

theorem C7_empty_metadata_is_null:
  "lv_metadata (buildInsertData data domainId activityId) \<noteq> Some []
   \<and> (\<not> hasKeys (assembleMetadata data) \<longrightarrow>
        lv_metadata (buildInsertData data domainId activityId) = None)
   \<and> (p_metadata data = Some [] \<and> p_action data = None \<and> p_context data = None \<longrightarrow>
        lv_metadata (buildInsertData data domainId activityId) = None)"
proof -
  have stored: "lv_metadata (buildInsertData data domainId activityId) = storedMetadata data"
    by (simp add: buildInsertData_def)
  have a: "storedMetadata data \<noteq> Some []"
    using assembleMetadata_not_empty [of data] by (simp add: storedMetadata_def)
  have b: "\<not> hasKeys (assembleMetadata data) \<longrightarrow> storedMetadata data = None"
    by (simp add: storedMetadata_def)
  have c: "p_metadata data = Some [] \<and> p_action data = None \<and> p_context data = None \<longrightarrow>
           storedMetadata data = None"
    by (simp add: storedMetadata_def assembleMetadata_def hasKeys_def Object_keys_def present_def)
  from a b c show ?thesis unfolding stored by blast
qed

text \<open>The payload \<open>{metadata: {}}\<close> meets the hypotheses of C7.\<close>

theorem C7_empty_metadata_is_null_witness:
  "p_metadata (blankPayload\<lparr> p_metadata := Some [] \<rparr>) = Some []
   \<and> p_action (blankPayload\<lparr> p_metadata := Some [] \<rparr>) = None
   \<and> p_context (blankPayload\<lparr> p_metadata := Some [] \<rparr>) = None
   \<and> \<not> hasKeys (assembleMetadata (blankPayload\<lparr> p_metadata := Some [] \<rparr>))
   \<and> lv_metadata (buildInsertData (blankPayload\<lparr> p_metadata := Some [] \<rparr>) 1 1) = None"
proof -
  have f: "p_metadata (blankPayload\<lparr> p_metadata := Some [] \<rparr>) = Some []"
    "p_action (blankPayload\<lparr> p_metadata := Some [] \<rparr>) = None"
    "p_context (blankPayload\<lparr> p_metadata := Some [] \<rparr>) = None"
    by (simp_all add: blankPayload_def)
  have g: "\<not> hasKeys (assembleMetadata (blankPayload\<lparr> p_metadata := Some [] \<rparr>))"
    by (simp add: assembleMetadata_def hasKeys_def Object_keys_def present_def f)
  from f g C7_empty_metadata_is_null [of "blankPayload\<lparr> p_metadata := Some [] \<rparr>" 1 1]
  show ?thesis by blast
qed

section \<open>The financial pair and the enumerated columns\<close>

text \<open>
  Claim C8, as stated, says that a supplied currency is stored as supplied. For amount 500
  and currency \<open>usd\<close> the stored currency is \<open>USD\<close>.
\<close>

theorem C8_currency_counterexample:
  "lv_currency (buildInsertData (blankPayload\<lparr> p_amount := Some 500, p_currency := Some ''usd'' \<rparr>) 1 1)
     = Some ''USD''
   \<and> lv_currency (buildInsertData (blankPayload\<lparr> p_amount := Some 500, p_currency := Some ''usd'' \<rparr>) 1 1)
     \<noteq> p_currency (blankPayload\<lparr> p_amount := Some 500, p_currency := Some ''usd'' \<rparr>)"
  by (simp add: buildInsertData_def storedCurrency_def amountKept_def blankPayload_def
      trim_def is_space_def toUpperCase_def upper_char_def)

text \<open>
  Claim C8, amended. In the record built by the Log Normalizer, amount and currency are both
  null or both present; the amount is kept exactly when the supplied amount is strictly
  greater than 0, and then the currency is the supplied currency converted to upper case, or
  \<open>INR\<close> when none, an empty or a blank one is supplied. For amount 500 without currency
  the stored currency is \<open>INR\<close>; for amount 0 both columns are null.
\<close>

theorem C8_amount_currency_pair:
  "(lv_amount (buildInsertData data domainId activityId) = None
      \<longleftrightarrow> lv_currency (buildInsertData data domainId activityId) = None)
   \<and> (lv_amount (buildInsertData data domainId activityId) \<noteq> None
      \<longleftrightarrow> (\<exists>a. p_amount data = Some a \<and> a > 0))
   \<and> (\<forall>a. p_amount data = Some a \<and> a > 0 \<longrightarrow>
         lv_amount (buildInsertData data domainId activityId) = Some (DecimalText a)
       \<and> lv_currency (buildInsertData data domainId activityId) =
           Some (case p_currency data of
                   None \<Rightarrow> ''INR''
                 | Some c \<Rightarrow> if trim c = [] then ''INR'' else toUpperCase c))
   \<and> (p_amount data = Some 500 \<and> p_currency data = None \<longrightarrow>
         lv_currency (buildInsertData data domainId activityId) = Some ''INR'')
   \<and> (p_amount data = Some 0 \<longrightarrow>
         lv_amount (buildInsertData data domainId activityId) = None
       \<and> lv_currency (buildInsertData data domainId activityId) = None)"
proof -
  have am: "lv_amount (buildInsertData data domainId activityId) = storedAmount data"
    and cu: "lv_currency (buildInsertData data domainId activityId) = storedCurrency data"
    by (simp_all add: buildInsertData_def)
  have kept: "amountKept data = (\<exists>a. p_amount data = Some a \<and> a > 0)"
    by (cases "p_amount data") (auto simp: amountKept_def)
  have both: "storedAmount data = None \<longleftrightarrow> storedCurrency data = None"
    by (simp add: storedAmount_def storedCurrency_def)
  have only: "storedAmount data \<noteq> None \<longleftrightarrow> (\<exists>a. p_amount data = Some a \<and> a > 0)"
    by (simp add: storedAmount_def kept)
  have val: "\<forall>a. p_amount data = Some a \<and> a > 0 \<longrightarrow>
         storedAmount data = Some (DecimalText a)
       \<and> storedCurrency data =
           Some (case p_currency data of
                   None \<Rightarrow> ''INR''
                 | Some c \<Rightarrow> if trim c = [] then ''INR'' else toUpperCase c)"
    by (auto simp: storedAmount_def storedCurrency_def amountKept_def trim_def
        split: option.splits)
  have e1: "p_amount data = Some 500 \<and> p_currency data = None \<longrightarrow> storedCurrency data = Some ''INR''"
    by (simp add: storedCurrency_def amountKept_def)
  have e2: "p_amount data = Some 0 \<longrightarrow> storedAmount data = None \<and> storedCurrency data = None"
    by (simp add: storedAmount_def storedCurrency_def amountKept_def)
  from both only val e1 e2 show ?thesis unfolding am cu by blast
qed

text \<open>The payload \<open>{amount: 500}\<close> meets the hypotheses of C8.\<close>

theorem C8_amount_currency_pair_witness:
  "p_amount (blankPayload\<lparr> p_amount := Some 500 \<rparr>) = Some 500
   \<and> p_currency (blankPayload\<lparr> p_amount := Some 500 \<rparr>) = None
   \<and> (500::rat) > 0
   \<and> lv_amount (buildInsertData (blankPayload\<lparr> p_amount := Some 500 \<rparr>) 1 1) = Some (DecimalText 500)
   \<and> lv_currency (buildInsertData (blankPayload\<lparr> p_amount := Some 500 \<rparr>) 1 1) = Some ''INR''"
proof -
  have f: "p_amount (blankPayload\<lparr> p_amount := Some 500 \<rparr>) = Some 500"
    "p_currency (blankPayload\<lparr> p_amount := Some 500 \<rparr>) = None"
    by (simp_all add: blankPayload_def)
  have g: "(500::rat) > 0" by simp
  from f g C8_amount_currency_pair [of "blankPayload\<lparr> p_amount := Some 500 \<rparr>" 1 1]
  show ?thesis by blast
qed

lemma set_validTimeOfDay:
  "set validTimeOfDay = {''morning'', ''afternoon'', ''evening'', ''night''}"
  by (simp add: validTimeOfDay_def)

lemma set_validSentiments:
  "set validSentiments = {''positive'', ''negative'', ''neutral''}"
  by (simp add: validSentiments_def)

lemma toLowerCase_Nil: "toLowerCase [] = []"
  by (simp add: toLowerCase_def)

lemma storedTimeOfDay_eq:
  "storedTimeOfDay data =
     (case p_timeOfDay data of
        None \<Rightarrow> None
      | Some t \<Rightarrow> if toLowerCase t \<in> set validTimeOfDay then Some (toLowerCase t) else None)"
  by (auto simp: storedTimeOfDay_def toLowerCase_Nil validTimeOfDay_def split: option.splits)

lemma storedSentiment_eq:
  "storedSentiment data =
     (case p_sentiment data of
        None \<Rightarrow> None
      | Some s \<Rightarrow> if toLowerCase s \<in> set validSentiments then Some (toLowerCase s) else None)"
  by (auto simp: storedSentiment_def toLowerCase_Nil validSentiments_def split: option.splits)

text \<open>
  Claim C9. A \<open>timeOfDay\<close> whose lower-casing is one of morning, afternoon, evening, night
  is stored lower-cased, and so is a \<open>sentiment\<close> whose lower-casing is one of positive,
  negative, neutral; every other value, and an absent one, is stored as null. In
  particular \<open>Morning\<close> is stored as \<open>morning\<close>.
\<close>

theorem C9_enums_case_insensitive:
  "(\<forall>t. p_timeOfDay data = Some t
        \<and> toLowerCase t \<in> {''morning'', ''afternoon'', ''evening'', ''night''} \<longrightarrow>
        lv_timeOfDay (buildInsertData data domainId activityId) = Some (toLowerCase t))
   \<and> (\<forall>t. p_timeOfDay data = Some t
        \<and> toLowerCase t \<notin> {''morning'', ''afternoon'', ''evening'', ''night''} \<longrightarrow>
        lv_timeOfDay (buildInsertData data domainId activityId) = None)
   \<and> (p_timeOfDay data = None \<longrightarrow>
        lv_timeOfDay (buildInsertData data domainId activityId) = None)
   \<and> (\<forall>s. p_sentiment data = Some s
        \<and> toLowerCase s \<in> {''positive'', ''negative'', ''neutral''} \<longrightarrow>
        lv_sentiment (buildInsertData data domainId activityId) = Some (toLowerCase s))
   \<and> (\<forall>s. p_sentiment data = Some s
        \<and> toLowerCase s \<notin> {''positive'', ''negative'', ''neutral''} \<longrightarrow>
        lv_sentiment (buildInsertData data domainId activityId) = None)
   \<and> (p_sentiment data = None \<longrightarrow>
        lv_sentiment (buildInsertData data domainId activityId) = None)
   \<and> (p_timeOfDay data = Some ''Morning'' \<longrightarrow>
        lv_timeOfDay (buildInsertData data domainId activityId) = Some ''morning'')"
proof -
  have t: "lv_timeOfDay (buildInsertData data domainId activityId) = storedTimeOfDay data"
    and s: "lv_sentiment (buildInsertData data domainId activityId) = storedSentiment data"
    by (simp_all add: buildInsertData_def)
  have t1: "\<forall>t. p_timeOfDay data = Some t
        \<and> toLowerCase t \<in> {''morning'', ''afternoon'', ''evening'', ''night''} \<longrightarrow>
        storedTimeOfDay data = Some (toLowerCase t)"
    by (simp add: storedTimeOfDay_eq set_validTimeOfDay)
  have t2: "\<forall>t. p_timeOfDay data = Some t
        \<and> toLowerCase t \<notin> {''morning'', ''afternoon'', ''evening'', ''night''} \<longrightarrow>
        storedTimeOfDay data = None"
    by (simp add: storedTimeOfDay_eq set_validTimeOfDay)
  have t3: "p_timeOfDay data = None \<longrightarrow> storedTimeOfDay data = None"
    by (simp add: storedTimeOfDay_def)
  have s1: "\<forall>s. p_sentiment data = Some s
        \<and> toLowerCase s \<in> {''positive'', ''negative'', ''neutral''} \<longrightarrow>
        storedSentiment data = Some (toLowerCase s)"
    by (simp add: storedSentiment_eq set_validSentiments)
  have s2: "\<forall>s. p_sentiment data = Some s
        \<and> toLowerCase s \<notin> {''positive'', ''negative'', ''neutral''} \<longrightarrow>
        storedSentiment data = None"
    by (simp add: storedSentiment_eq set_validSentiments)
  have s3: "p_sentiment data = None \<longrightarrow> storedSentiment data = None"
    by (simp add: storedSentiment_def)
  have lower: "toLowerCase ''Morning'' = ''morning''"
    by (simp add: toLowerCase_def lower_char_def)
  have ex: "p_timeOfDay data = Some ''Morning'' \<longrightarrow> storedTimeOfDay data = Some ''morning''"
    using t1 lower by auto
  from t1 t2 t3 s1 s2 s3 ex show ?thesis unfolding t s by blast
qed

text \<open>The payload \<open>{timeOfDay: "Morning", sentiment: "NEGATIVE"}\<close> meets the hypotheses of C9.\<close>

theorem C9_enums_case_insensitive_witness:
  "p_timeOfDay (blankPayload\<lparr> p_timeOfDay := Some ''Morning'', p_sentiment := Some ''NEGATIVE'' \<rparr>) = Some ''Morning''
   \<and> toLowerCase ''Morning'' \<in> {''morning'', ''afternoon'', ''evening'', ''night''}
   \<and> p_sentiment (blankPayload\<lparr> p_timeOfDay := Some ''Morning'', p_sentiment := Some ''NEGATIVE'' \<rparr>) = Some ''NEGATIVE''
   \<and> toLowerCase ''NEGATIVE'' \<in> {''positive'', ''negative'', ''neutral''}
   \<and> lv_timeOfDay (buildInsertData (blankPayload\<lparr> p_timeOfDay := Some ''Morning'', p_sentiment := Some ''NEGATIVE'' \<rparr>) 1 1) = Some ''morning''
   \<and> lv_sentiment (buildInsertData (blankPayload\<lparr> p_timeOfDay := Some ''Morning'', p_sentiment := Some ''NEGATIVE'' \<rparr>) 1 1) = Some ''negative''"
proof -
  let ?p = "blankPayload\<lparr> p_timeOfDay := Some ''Morning'', p_sentiment := Some ''NEGATIVE'' \<rparr>"
  have f: "p_timeOfDay ?p = Some ''Morning''" "p_sentiment ?p = Some ''NEGATIVE''"
    by (simp_all add: blankPayload_def)
  have l: "toLowerCase ''Morning'' = ''morning''" "toLowerCase ''NEGATIVE'' = ''negative''"
    by (simp_all add: toLowerCase_def lower_char_def)
  have m: "toLowerCase ''Morning'' \<in> {''morning'', ''afternoon'', ''evening'', ''night''}"
    "toLowerCase ''NEGATIVE'' \<in> {''positive'', ''negative'', ''neutral''}"
    by (simp_all add: l)
  from f m l C9_enums_case_insensitive [of ?p 1 1]
  show ?thesis by metis
qed

section \<open>The assembled metadata object\<close>

text \<open>
  Claim C6, as stated, says that every payload gets \<open>aiAction\<close> and \<open>aiPriority\<close>
  attached. For the payload \<open>{metadata: {}}\<close> no metadata object is assembled at all, and
  the stored metadata is null.
\<close>

theorem C6_no_metadata_counterexample:
  "assembleMetadata (blankPayload\<lparr> p_metadata := Some [] \<rparr>) = None
   \<and> lv_metadata (buildInsertData (blankPayload\<lparr> p_metadata := Some [] \<rparr>) 1 1) = None"
  by (simp add: buildInsertData_def storedMetadata_def assembleMetadata_def hasKeys_def
      Object_keys_def present_def blankPayload_def)

lemma addContext_lookup_other:
  "k \<noteq> ''aiContext'' \<Longrightarrow> map_of (addContext data m) k = map_of m k"
  by (simp add: addContext_def map_of_update_other)

lemma addContext_lookup_context:
  "map_of (addContext data m) ''aiContext'' =
     (if hasKeys (p_context data) then Some (JObj (the (p_context data)))
      else map_of m ''aiContext'')"
  by (simp add: addContext_def map_of_update_same)

text \<open>
  Claim C6, amended. When the payload's metadata has at least one key, or its action or its
  context is present, the assembled metadata has \<open>aiAction\<close> equal to \<open>action.action\<close>
  (\<open>acknowledge\<close> when absent or empty) and \<open>aiPriority\<close> equal to \<open>action.priority\<close>
  (\<open>medium\<close> when absent or empty); \<open>aiContext\<close> is set to the context exactly when the
  context has at least one key, and is otherwise whatever the payload's own metadata
  carries under that key (nothing, unless it has one). For every other payload no metadata
  object is assembled.
\<close>

theorem C6_ai_fields_attached:
  "(hasKeys (p_metadata data) \<or> present (p_action data) \<or> present (p_context data) \<longrightarrow>
      (\<exists>m. assembleMetadata data = Some m
         \<and> map_of m ''aiAction'' =
             Some (JStr (str_or (Option.bind (p_action data) ac_action) ''acknowledge''))
         \<and> map_of m ''aiPriority'' =
             Some (JStr (str_or (Option.bind (p_action data) ac_priority) ''medium''))
         \<and> map_of m ''aiContext'' =
             (if hasKeys (p_context data) then Some (JObj (the (p_context data)))
              else if hasKeys (p_metadata data) then map_of (the (p_metadata data)) ''aiContext''
              else None)))
   \<and> (\<not> (hasKeys (p_metadata data) \<or> present (p_action data) \<or> present (p_context data)) \<longrightarrow>
        assembleMetadata data = None)"
proof (cases "hasKeys (p_metadata data)")
  case True
  let ?m = "addContext data
          (AList.update ''aiPriority'' (JStr (aiPriorityOf data))
            (AList.update ''aiAction'' (JStr (aiActionOf data)) (the (p_metadata data))))"
  have a: "assembleMetadata data = Some ?m"
    using True by (simp add: assembleMetadata_def)
  have b: "map_of ?m ''aiAction'' = Some (JStr (aiActionOf data))"
    by (simp add: addContext_lookup_other map_of_update_other map_of_update_same)
  have c: "map_of ?m ''aiPriority'' = Some (JStr (aiPriorityOf data))"
    by (simp add: addContext_lookup_other map_of_update_same)
  have d: "map_of ?m ''aiContext'' =
             (if hasKeys (p_context data) then Some (JObj (the (p_context data)))
              else map_of (the (p_metadata data)) ''aiContext'')"
    by (simp add: addContext_lookup_context map_of_update_other)
  from True a b c d show ?thesis
    by (simp add: aiActionOf_def aiPriorityOf_def)
next
  case False
  show ?thesis
  proof (cases "present (p_action data) \<or> present (p_context data)")
    case True
    let ?m = "addContext data
          [(''aiAction'', JStr (aiActionOf data)), (''aiPriority'', JStr (aiPriorityOf data))]"
    have a: "assembleMetadata data = Some ?m"
      using True False by (simp add: assembleMetadata_def)
    have b: "map_of ?m ''aiAction'' = Some (JStr (aiActionOf data))"
      by (simp add: addContext_lookup_other)
    have c: "map_of ?m ''aiPriority'' = Some (JStr (aiPriorityOf data))"
      by (simp add: addContext_lookup_other)
    have d: "map_of ?m ''aiContext'' =
             (if hasKeys (p_context data) then Some (JObj (the (p_context data))) else None)"
      by (simp add: addContext_lookup_context)
    from True False a b c d show ?thesis
      by (simp add: aiActionOf_def aiPriorityOf_def)
  next
    case nothing: False
    with False show ?thesis by (simp add: assembleMetadata_def)
  qed
qed

text \<open>A payload with an action and a one-key context meets the hypotheses of C6.\<close>

theorem C6_ai_fields_attached_witness:
  "present (p_action (blankPayload\<lparr> p_action := Some \<lparr> ac_action = Some ''remind'', ac_priority = None \<rparr>,
                                     p_context := Some [(''topic'', JStr ''sleep'')] \<rparr>))
   \<and> (\<exists>m. assembleMetadata (blankPayload\<lparr> p_action := Some \<lparr> ac_action = Some ''remind'', ac_priority = None \<rparr>,
                                     p_context := Some [(''topic'', JStr ''sleep'')] \<rparr>) = Some m
         \<and> map_of m ''aiAction'' = Some (JStr ''remind'')
         \<and> map_of m ''aiPriority'' = Some (JStr ''medium'')
         \<and> map_of m ''aiContext'' = Some (JObj [(''topic'', JStr ''sleep'')]))"
proof -
  let ?p = "blankPayload\<lparr> p_action := Some \<lparr> ac_action = Some ''remind'', ac_priority = None \<rparr>,
                          p_context := Some [(''topic'', JStr ''sleep'')] \<rparr>"
  have f: "p_action ?p = Some \<lparr> ac_action = Some ''remind'', ac_priority = None \<rparr>"
    "p_context ?p = Some [(''topic'', JStr ''sleep'')]" "p_metadata ?p = None"
    by (simp_all add: blankPayload_def)
  have g: "present (p_action ?p)" "hasKeys (p_context ?p)"
    by (simp_all add: f present_def hasKeys_def Object_keys_def)
  have h: "str_or (Option.bind (p_action ?p) ac_action) ''acknowledge'' = ''remind''"
    "str_or (Option.bind (p_action ?p) ac_priority) ''medium'' = ''medium''"
    "the (p_context ?p) = [(''topic'', JStr ''sleep'')]"
    by (simp_all add: f str_or_def)
  from g C6_ai_fields_attached [of ?p] show ?thesis
    unfolding h by simp
qed

section \<open>The Taxonomy Resolver: one id per canonical name\<close>

lemma filter_head_member: "filter P xs = e # es \<Longrightarrow> e \<in> set xs \<and> P e"
proof -
  assume h: "filter P xs = e # es"
  have "e \<in> set (filter P xs)" by (simp add: h)
  then show ?thesis by simp
qed

lemma getOrCreateDomain_found:
  assumes "online st" and "filter (\<lambda>d. d_name d = capitalized n) (domains st) = e # es"
  shows "getOrCreateDomain st n = Inr (d_id e, st)"
  using assms by (simp add: getOrCreateDomain_def)

lemma getOrCreateDomain_created:
  assumes "online st" and "filter (\<lambda>d. d_name d = capitalized n) (domains st) = []"
  shows "getOrCreateDomain st n =
     Inr (domains_seq st + 1,
          st\<lparr> domains := domains st @
                 [\<lparr> d_id = domains_seq st + 1, d_name = capitalized n,
                    d_color = Some (case map_of domainColors (toLowerCase (trim n)) of
                                      Some c \<Rightarrow> c | None \<Rightarrow> ''#6B7280''),
                    d_isActive = Some True \<rparr>],
              domains_seq := domains_seq st + 1 \<rparr>)"
  using assms by (simp add: getOrCreateDomain_def Let_def)

lemma distinct_names_same_row:
  assumes "distinct (map d_name rows)" "r \<in> set rows" "r' \<in> set rows" "d_name r = d_name r'"
  shows "r = r'"
  using assms by (meson distinct_map inj_onD)

lemma capitalized_cases:
  "capitalized d = (case trim d of [] \<Rightarrow> [] | c # cs \<Rightarrow> upper_char c # map lower_char cs)"
  by (cases "trim d") (simp_all add: capitalized_def toUpperCase_def toLowerCase_def)

lemma capitalized_WORK: "capitalized ''  WORK '' = ''Work''"
  by (simp add: capitalized_def trim_def is_space_def toUpperCase_def toLowerCase_def
      upper_char_def lower_char_def)

lemma color_WORK:
  "(case map_of domainColors (toLowerCase (trim ''  WORK '')) of Some c \<Rightarrow> c | None \<Rightarrow> ''#6B7280'')
     = ''#3B82F6''"
  by (simp add: domainColors_def trim_def is_space_def toLowerCase_def lower_char_def)

lemma resolve_twice:
  assumes on: "online st" and uniq: "distinct (map d_name (domains st))"
    and same: "capitalized d1 = capitalized d2"
  shows "\<exists>i st1. getOrCreateDomain st d1 = Inr (i, st1)
           \<and> getOrCreateDomain st1 d2 = Inr (i, st1)
           \<and> distinct (map d_name (domains st1))
           \<and> (\<exists>r \<in> set (domains st1). d_id r = i \<and> d_name r = capitalized d1)
           \<and> (\<forall>r \<in> set (domains st1). d_name r = capitalized d1 \<longrightarrow> d_id r = i)"
proof (cases "filter (\<lambda>d. d_name d = capitalized d1) (domains st)")
  case Nil
  let ?new = "\<lparr> d_id = domains_seq st + 1, d_name = capitalized d1,
                 d_color = Some (case map_of domainColors (toLowerCase (trim d1)) of
                                   Some c \<Rightarrow> c | None \<Rightarrow> ''#6B7280''),
                 d_isActive = Some True \<rparr>"
  let ?st1 = "st\<lparr> domains := domains st @ [?new], domains_seq := domains_seq st + 1 \<rparr>"
  have first: "getOrCreateDomain st d1 = Inr (domains_seq st + 1, ?st1)"
    using on Nil by (rule getOrCreateDomain_created)
  have absent: "capitalized d1 \<notin> set (map d_name (domains st))"
    using Nil by (auto simp: filter_empty_conv)
  have flt: "filter (\<lambda>d. d_name d = capitalized d2) (domains ?st1) = [?new]"
    using Nil same by simp
  have on1: "online ?st1"
    by (simp add: on)
  have "getOrCreateDomain ?st1 d2 = Inr (d_id ?new, ?st1)"
    using on1 flt by (rule getOrCreateDomain_found)
  then have second: "getOrCreateDomain ?st1 d2 = Inr (domains_seq st + 1, ?st1)"
    by simp
  have uniq1: "distinct (map d_name (domains ?st1))"
    using uniq absent by simp
  have only: "\<forall>r \<in> set (domains ?st1). d_name r = capitalized d1 \<longrightarrow> d_id r = domains_seq st + 1"
  proof (intro ballI impI)
    fix r
    assume r: "r \<in> set (domains ?st1)" and n: "d_name r = capitalized d1"
    have "r \<notin> set (domains st)"
    proof
      assume "r \<in> set (domains st)"
      then have "d_name r \<in> set (map d_name (domains st))" by simp
      with absent n show False by simp
    qed
    with r have "r = ?new" by simp
    then show "d_id r = domains_seq st + 1" by simp
  qed
  have ex: "\<exists>r \<in> set (domains ?st1). d_id r = domains_seq st + 1 \<and> d_name r = capitalized d1"
    by simp
  from first second uniq1 only ex show ?thesis by blast
next
  case (Cons e es)
  have first: "getOrCreateDomain st d1 = Inr (d_id e, st)"
    using on Cons by (rule getOrCreateDomain_found)
  have flt: "filter (\<lambda>d. d_name d = capitalized d2) (domains st) = e # es"
    using Cons same by simp
  have second: "getOrCreateDomain st d2 = Inr (d_id e, st)"
    using on flt by (rule getOrCreateDomain_found)
  have e: "e \<in> set (domains st) \<and> d_name e = capitalized d1"
    using filter_head_member [OF Cons] .
  have only: "\<forall>r \<in> set (domains st). d_name r = capitalized d1 \<longrightarrow> d_id r = d_id e"
    using distinct_names_same_row [OF uniq _ _] e by metis
  have ex: "\<exists>r \<in> set (domains st). d_id r = d_id e \<and> d_name r = capitalized d1"
    using e by blast
  from first second uniq ex only show ?thesis by blast
qed

lemma resolve_WORK:
  assumes on: "online st"
    and colors: "\<forall>r \<in> set (domains st). d_name r = ''Work'' \<longrightarrow> d_color r = Some ''#3B82F6''"
  shows "\<exists>i st1. getOrCreateDomain st ''  WORK '' = Inr (i, st1)
           \<and> (\<exists>r \<in> set (domains st1). d_id r = i \<and> d_name r = ''Work''
                 \<and> d_color r = Some ''#3B82F6'')"
proof (cases "filter (\<lambda>d. d_name d = capitalized ''  WORK '') (domains st)")
  case Nil
  let ?new = "\<lparr> d_id = domains_seq st + 1, d_name = ''Work'',
                 d_color = Some ''#3B82F6'', d_isActive = Some True \<rparr>"
  let ?st1 = "st\<lparr> domains := domains st @ [?new], domains_seq := domains_seq st + 1 \<rparr>"
  have first: "getOrCreateDomain st ''  WORK '' = Inr (domains_seq st + 1, ?st1)"
    using getOrCreateDomain_created [OF on Nil] by (simp only: capitalized_WORK color_WORK)
  have "?new \<in> set (domains ?st1)" by simp
  moreover have "d_id ?new = domains_seq st + 1 \<and> d_name ?new = ''Work''
      \<and> d_color ?new = Some ''#3B82F6''" by simp
  ultimately have ex: "\<exists>r \<in> set (domains ?st1). d_id r = domains_seq st + 1 \<and> d_name r = ''Work''
                 \<and> d_color r = Some ''#3B82F6''" by blast
  from first ex show ?thesis by blast
next
  case (Cons e es)
  have e: "e \<in> set (domains st) \<and> d_name e = ''Work''"
    using filter_head_member [OF Cons] by (simp add: capitalized_WORK)
  with colors have "d_color e = Some ''#3B82F6''" by blast
  with e have ex: "\<exists>r \<in> set (domains st). d_id r = d_id e \<and> d_name r = ''Work''
                 \<and> d_color r = Some ''#3B82F6''" by blast
  from getOrCreateDomain_found [OF on Cons] ex show ?thesis by blast
qed


text \<open>
  Claim C3. \<open>getOrCreateDomain\<close> looks up and inserts under the canonical name: the trimmed
  argument with its first character upper-cased and the rest lower-cased. On a store that
  answers and has at most one domain row per name, resolving \<open>d1\<close> and then \<open>d2\<close>, two
  strings with the same canonical name, returns the same id both times; the second call
  leaves the store as the first left it, the store still has at most one row per name, and
  the id is that of the one row with the canonical name. \<open>"  WORK "\<close> has the canonical
  name \<open>Work\<close>, and resolving it yields a row named \<open>Work\<close> with color \<open>#3B82F6\<close>
  (provided that a row named \<open>Work\<close> already in the store has that color).
\<close>

theorem C3_same_canonical_name_same_id:
  "capitalized d1 = (case trim d1 of [] \<Rightarrow> [] | c # cs \<Rightarrow> upper_char c # map lower_char cs)
   \<and> (online st \<and> distinct (map d_name (domains st)) \<and> capitalized d1 = capitalized d2 \<longrightarrow>
        (\<exists>i st1. getOrCreateDomain st d1 = Inr (i, st1)
           \<and> getOrCreateDomain st1 d2 = Inr (i, st1)
           \<and> distinct (map d_name (domains st1))
           \<and> (\<exists>r \<in> set (domains st1). d_id r = i \<and> d_name r = capitalized d1)
           \<and> (\<forall>r \<in> set (domains st1). d_name r = capitalized d1 \<longrightarrow> d_id r = i)))
   \<and> capitalized ''  WORK '' = ''Work''
   \<and> (online st \<and> (\<forall>r \<in> set (domains st). d_name r = ''Work'' \<longrightarrow> d_color r = Some ''#3B82F6'') \<longrightarrow>
        (\<exists>i st1. getOrCreateDomain st ''  WORK '' = Inr (i, st1)
           \<and> (\<exists>r \<in> set (domains st1). d_id r = i \<and> d_name r = ''Work''
                 \<and> d_color r = Some ''#3B82F6'')))"
  using capitalized_cases [of d1] resolve_twice [of st d1 d2] capitalized_WORK resolve_WORK [of st]
  by blast

text \<open>On the empty store, \<open>"  WORK "\<close> and \<open>"work"\<close> meet the hypotheses of C3.\<close>

theorem C3_same_canonical_name_same_id_witness:
  "online emptyStore
   \<and> distinct (map d_name (domains emptyStore))
   \<and> capitalized ''  WORK '' = capitalized ''work''
   \<and> (\<exists>i st1. getOrCreateDomain emptyStore ''  WORK '' = Inr (i, st1)
         \<and> getOrCreateDomain st1 ''work'' = Inr (i, st1)
         \<and> (\<exists>r \<in> set (domains st1). d_id r = i \<and> d_name r = ''Work''
                 \<and> d_color r = Some ''#3B82F6''))"
proof -
  have a: "online emptyStore" "distinct (map d_name (domains emptyStore))"
    "\<forall>r \<in> set (domains emptyStore). d_name r = ''Work'' \<longrightarrow> d_color r = Some ''#3B82F6''"
    by (simp_all add: emptyStore_def)
  have b: "capitalized ''work'' = ''Work''"
    by (simp add: capitalized_def trim_def is_space_def toUpperCase_def toLowerCase_def
      upper_char_def lower_char_def)
  have c: "capitalized ''  WORK '' = capitalized ''work''"
    by (simp add: b capitalized_WORK)
  from C3_same_canonical_name_same_id [of "''  WORK ''" emptyStore "''work''"] a c
  obtain i st1 where one: "getOrCreateDomain emptyStore ''  WORK '' = Inr (i, st1)"
    and two: "getOrCreateDomain st1 ''work'' = Inr (i, st1)"
    by blast
  from C3_same_canonical_name_same_id [of "''  WORK ''" emptyStore "''work''"] a
  obtain j st2 where three: "getOrCreateDomain emptyStore ''  WORK '' = Inr (j, st2)"
    and row: "\<exists>r \<in> set (domains st2). d_id r = j \<and> d_name r = ''Work''
                 \<and> d_color r = Some ''#3B82F6''"
    by blast
  from one three have "j = i" "st2 = st1" by simp_all
  with one two row a c show ?thesis by blast
qed

section \<open>The chat save path\<close>

lemma chatDomain_online:
  assumes "online st"
  shows "\<exists>gid st1. chatDomain st = Inr (gid, st1) \<and> online st1
           \<and> activities st1 = activities st \<and> logs st1 = logs st
           \<and> logs_seq st1 = logs_seq st"
proof (cases "filter (\<lambda>d. d_name d = ''General'') (domains st)")
  case Nil
  with assms show ?thesis by (simp add: chatDomain_def Let_def)
next
  case (Cons e es)
  with assms show ?thesis by (simp add: chatDomain_def)
qed

lemma chatActivity_existing:
  assumes "online st" and "filter (\<lambda>a. a_name a = ''Chat'') (activities st) = c # cs"
  shows "chatActivity st domainId = Inr (a_id c, st)"
  using assms by (simp add: chatActivity_def)

lemma insert_log_online:
  assumes "online st"
  shows "insert_log st now v =
     Inr (st\<lparr> logs := logs st @ [\<lparr> l_id = logs_seq st + 1, l_createdAt = Some now,
                                      l_values = v \<rparr>],
             logs_seq := logs_seq st + 1 \<rparr>)"
  using assms by (simp add: insert_log_def)

text \<open>
  Claim C10. \<open>saveChatMessage\<close> selects the \<open>Chat\<close> activity by name alone. On a store
  that answers and already holds an activity named \<open>Chat\<close>, the save succeeds, creates no
  activity, and appends one log row whose \<open>domainId\<close> is the id that the \<open>General\<close>
  lookup returned and whose \<open>activityId\<close> is the id of an activity named \<open>Chat\<close> that was
  already there, whatever domain that activity belongs to; when only one activity is named
  \<open>Chat\<close>, it is that one.
\<close>

theorem C10_chat_activity_by_name_only:
  assumes on: "online st" and a: "a \<in> set (activities st)" and n: "a_name a = ''Chat''"
  shows "\<exists>gid st1 c row.
           chatDomain st = Inr (gid, st1)
         \<and> fst (saveChatMessage st now message conversationContext) = ChatOk
         \<and> activities (snd (saveChatMessage st now message conversationContext)) = activities st
         \<and> logs (snd (saveChatMessage st now message conversationContext)) = logs st @ [row]
         \<and> c \<in> set (activities st) \<and> a_name c = ''Chat''
         \<and> lv_activityId (l_values row) = Some (a_id c)
         \<and> lv_domainId (l_values row) = Some gid
         \<and> ((\<forall>b \<in> set (activities st). a_name b = ''Chat'' \<longrightarrow> b = a) \<longrightarrow> c = a)"
proof -
  from chatDomain_online [OF on] obtain gid st1 where
    d: "chatDomain st = Inr (gid, st1)" and on1: "online st1"
    and act1: "activities st1 = activities st" and logs1: "logs st1 = logs st"
    by blast
  from a n have "a \<in> set (filter (\<lambda>a. a_name a = ''Chat'') (activities st1))"
    by (simp add: act1)
  then obtain c cs where f: "filter (\<lambda>a. a_name a = ''Chat'') (activities st1) = c # cs"
    by (cases "filter (\<lambda>a. a_name a = ''Chat'') (activities st1)") auto
  have c: "c \<in> set (activities st) \<and> a_name c = ''Chat''"
    using filter_head_member [OF f] by (simp add: act1)
  have ca: "chatActivity st1 gid = Inr (a_id c, st1)"
    using on1 f by (rule chatActivity_existing)
  let ?row = "\<lparr> l_id = logs_seq st1 + 1, l_createdAt = Some now,
                 l_values = chatInsertData message conversationContext gid (a_id c) \<rparr>"
  let ?st3 = "st1\<lparr> logs := logs st1 @ [?row], logs_seq := logs_seq st1 + 1 \<rparr>"
  have ins: "insert_log st1 now (chatInsertData message conversationContext gid (a_id c)) = Inr ?st3"
    using on1 by (rule insert_log_online)
  have res: "saveChatMessage st now message conversationContext = (ChatOk, ?st3)"
    by (simp add: saveChatMessage_def d ca ins)
  have r1: "fst (saveChatMessage st now message conversationContext) = ChatOk"
    by (simp add: res)
  have r2: "activities (snd (saveChatMessage st now message conversationContext)) = activities st"
    by (simp add: res act1)
  have r3: "logs (snd (saveChatMessage st now message conversationContext)) = logs st @ [?row]"
    by (simp add: res logs1)
  have r4: "lv_activityId (l_values ?row) = Some (a_id c)"
    by (simp add: chatInsertData_def)
  have r5: "lv_domainId (l_values ?row) = Some gid"
    by (simp add: chatInsertData_def)
  have r6: "(\<forall>b \<in> set (activities st). a_name b = ''Chat'' \<longrightarrow> b = a) \<longrightarrow> c = a"
    using c by blast
  from d r1 r2 r3 c r4 r5 r6 show ?thesis by blast
qed


text \<open>
  With \<open>Chat\<close> under \<open>Hobby\<close> (domain 2) and \<open>General\<close> being domain 1, the chat log
  gets domain 1 and the activity of domain 2.
\<close>

theorem C10_chat_activity_by_name_only_witness:
  "online hobbyChatStore
   \<and> \<lparr> a_id = 1, a_name = ''Chat'', a_domainId = Some 2, a_isActive = Some True \<rparr>
        \<in> set (activities hobbyChatStore)
   \<and> a_name \<lparr> a_id = 1, a_name = ''Chat'', a_domainId = Some 2, a_isActive = Some True \<rparr> = ''Chat''
   \<and> chatDomain hobbyChatStore = Inr (1, hobbyChatStore)
   \<and> (\<exists>c row.
           fst (saveChatMessage hobbyChatStore 2000
                  \<lparr> m_role = User, m_content = ''hello'', m_timestamp = 1000 \<rparr> None) = ChatOk
         \<and> activities (snd (saveChatMessage hobbyChatStore 2000
                  \<lparr> m_role = User, m_content = ''hello'', m_timestamp = 1000 \<rparr> None))
             = activities hobbyChatStore
         \<and> logs (snd (saveChatMessage hobbyChatStore 2000
                  \<lparr> m_role = User, m_content = ''hello'', m_timestamp = 1000 \<rparr> None))
             = logs hobbyChatStore @ [row]
         \<and> c \<in> set (activities hobbyChatStore) \<and> a_name c = ''Chat''
         \<and> a_domainId c = Some 2
         \<and> lv_activityId (l_values row) = Some (a_id c)
         \<and> lv_domainId (l_values row) = Some 1)"
proof -
  let ?a = "\<lparr> a_id = 1, a_name = ''Chat'', a_domainId = Some 2, a_isActive = Some True \<rparr>"
  have h: "online hobbyChatStore" "?a \<in> set (activities hobbyChatStore)" "a_name ?a = ''Chat''"
    by (simp_all add: hobbyChatStore_def)
  have d: "chatDomain hobbyChatStore = Inr (1, hobbyChatStore)"
    by (simp add: chatDomain_def hobbyChatStore_def)
  have only: "\<forall>b \<in> set (activities hobbyChatStore). a_name b = ''Chat'' \<longrightarrow> b = ?a"
    by (simp add: hobbyChatStore_def)
  have dom: "a_domainId ?a = Some 2" by simp
  from C10_chat_activity_by_name_only [OF h, of 2000
      "\<lparr> m_role = User, m_content = ''hello'', m_timestamp = 1000 \<rparr>" None]
  obtain gid st1 c row where
    r: "chatDomain hobbyChatStore = Inr (gid, st1)"
      "fst (saveChatMessage hobbyChatStore 2000
                  \<lparr> m_role = User, m_content = ''hello'', m_timestamp = 1000 \<rparr> None) = ChatOk"
      "activities (snd (saveChatMessage hobbyChatStore 2000
                  \<lparr> m_role = User, m_content = ''hello'', m_timestamp = 1000 \<rparr> None))
             = activities hobbyChatStore"
      "logs (snd (saveChatMessage hobbyChatStore 2000
                  \<lparr> m_role = User, m_content = ''hello'', m_timestamp = 1000 \<rparr> None))
             = logs hobbyChatStore @ [row]"
      "c \<in> set (activities hobbyChatStore)" "a_name c = ''Chat''"
      "lv_activityId (l_values row) = Some (a_id c)"
      "lv_domainId (l_values row) = Some gid"
      "(\<forall>b \<in> set (activities hobbyChatStore). a_name b = ''Chat'' \<longrightarrow> b = ?a) \<longrightarrow> c = ?a"
    by blast
  from r(1) d have g: "gid = 1" by simp
  from r(9) only have "c = ?a" by blast
  then have cd: "a_domainId c = Some 2" by simp
  from h d r(2-7) cd r(8) [unfolded g] show ?thesis by blast
qed

subsection \<open>What \<open>saveLogEntry\<close> stores\<close>

text \<open>
  On a store that answers, \<open>saveLogEntry\<close> succeeds and appends exactly one row, whose
  values are the record that \<^const>\<open>buildInsertData\<close> builds for the resolved ids: the
  properties of that record are properties of the stored row.
\<close>

lemma saveLogEntry_inserts_normalized:
  assumes "online st"
  shows "\<exists>domainId activityId.
           fst (saveLogEntry st now data) = SaveOk domainId activityId
         \<and> logs (snd (saveLogEntry st now data)) =
             logs st @ [\<lparr> l_id = logs_seq st + 1, l_createdAt = Some now,
                           l_values = buildInsertData data domainId activityId \<rparr>]"
proof -
  obtain domainId st1 where d: "getOrCreateDomain st (domainNameOf data) = Inr (domainId, st1)"
    and on1: "online st1" and l1: "logs st1 = logs st" "logs_seq st1 = logs_seq st"
    using assms
    by (cases "filter (\<lambda>d. d_name d = capitalized (domainNameOf data)) (domains st)")
       (simp_all add: getOrCreateDomain_def Let_def)
  obtain activityId st2 where
    a: "getOrCreateActivity st1 (activityNameOf data) domainId = Inr (activityId, st2)"
    and on2: "online st2" and l2: "logs st2 = logs st1" "logs_seq st2 = logs_seq st1"
    using on1
    by (cases "filter (\<lambda>a. a_name a = trim (activityNameOf data) \<and> a_domainId a = Some domainId)
                 (activities st1)")
       (simp_all add: getOrCreateActivity_def Let_def)
  have res: "saveLogEntry st now data =
      (SaveOk domainId activityId,
       st2\<lparr> logs := logs st2 @ [\<lparr> l_id = logs_seq st2 + 1, l_createdAt = Some now,
                                    l_values = buildInsertData data domainId activityId \<rparr>],
            logs_seq := logs_seq st2 + 1 \<rparr>)"
    by (simp add: saveLogEntry_def d a insert_log_online [OF on2])
  show ?thesis
    by (simp add: res l1 l2)
qed

section \<open>Keyword search: the token filter\<close>

lemma join_not_Nil:
  assumes "ws \<noteq> []" and "\<forall>w \<in> set ws. w \<noteq> []"
  shows "join sep ws \<noteq> []"
proof (cases ws)
  case Nil
  with assms show ?thesis by simp
next
  case (Cons w rest)
  with assms have "w \<noteq> []" by simp
  with Cons show ?thesis by (cases rest) simp_all
qed

lemma searchTerms_Nil_iff:
  "searchTerms q = [] \<longleftrightarrow> filter (\<lambda>w. length w > 3) (split_space q) = []"
proof
  assume e: "searchTerms q = []"
  show "filter (\<lambda>w. length w > 3) (split_space q) = []"
  proof (rule ccontr)
    assume ne: "filter (\<lambda>w. length w > 3) (split_space q) \<noteq> []"
    have "\<forall>w \<in> set (filter (\<lambda>w. length w > 3) (split_space q)). w \<noteq> []" by auto
    with ne have "join '' | '' (filter (\<lambda>w. length w > 3) (split_space q)) \<noteq> []"
      by (rule join_not_Nil)
    with e show False by (simp add: searchTerms_def)
  qed
next
  assume "filter (\<lambda>w. length w > 3) (split_space q) = []"
  then show "searchTerms q = []" by (simp add: searchTerms_def)
qed

lemma getRelatedLogs_issued:
  "snd (getRelatedLogs fts st q) = (if searchTerms q = [] then [] else [searchTerms q])"
  by (simp add: getRelatedLogs_def split: option.splits)

lemma hi_there_tokens:
  "filter (\<lambda>w. length w > 3) (split_space ''hi there'') = [''there'']"
  by simp

lemma hi_there_terms: "searchTerms ''hi there'' = ''there''"
  by (simp add: searchTerms_def)

lemma hi_all_tokens: "filter (\<lambda>w. length w > 3) (split_space ''hi all'') = []"
  by simp

text \<open>
  Claim C5, as stated, says that both tokens of \<open>hi there\<close> are filtered out and no query
  is issued. The token \<open>there\<close> has five characters and survives, and a statement with
  the query text \<open>there\<close> is sent to the storage.
\<close>

theorem C5_hi_there_counterexample:
  "filter (\<lambda>w. length w > 3) (split_space ''hi there'') = [''there'']
   \<and> snd (getRelatedLogs matchesNothing emptyStore ''hi there'') = [''there'']"
  by (simp add: getRelatedLogs_issued hi_there_terms)

text \<open>
  Claim C5, amended. Whenever no token of the query is longer than 3 characters,
  \<open>getRelatedLogs\<close> returns the empty list and sends nothing to the storage, for every
  storage state and every text search (for example for \<open>hi all\<close>); whenever a token
  survives, exactly one statement is sent, with the surviving tokens joined by \<open>" | "\<close>.
  For \<open>hi there\<close> only \<open>hi\<close> is filtered out and the statement for \<open>there\<close> is sent.
\<close>

theorem C5_no_token_no_query:
  "(filter (\<lambda>w. length w > 3) (split_space q) = [] \<longrightarrow> getRelatedLogs fts st q = ([], []))
   \<and> (filter (\<lambda>w. length w > 3) (split_space q) \<noteq> [] \<longrightarrow>
        snd (getRelatedLogs fts st q) = [searchTerms q])
   \<and> getRelatedLogs fts st ''hi all'' = ([], [])
   \<and> filter (\<lambda>w. length w > 3) (split_space ''hi there'') = [''there'']
   \<and> snd (getRelatedLogs fts st ''hi there'') = [''there'']"
proof -
  have a: "filter (\<lambda>w. length w > 3) (split_space q) = [] \<longrightarrow> getRelatedLogs fts st q = ([], [])"
    by (simp add: getRelatedLogs_def searchTerms_Nil_iff)
  have b: "filter (\<lambda>w. length w > 3) (split_space q) \<noteq> [] \<longrightarrow>
        snd (getRelatedLogs fts st q) = [searchTerms q]"
    by (simp add: getRelatedLogs_issued searchTerms_Nil_iff)
  have c: "getRelatedLogs fts st ''hi all'' = ([], [])"
    by (simp add: getRelatedLogs_def searchTerms_Nil_iff)
  have d: "snd (getRelatedLogs fts st ''hi there'') = [''there'']"
    by (simp add: getRelatedLogs_issued hi_there_terms)
  from a b c d hi_there_tokens show ?thesis by blast
qed

text \<open>\<open>a an the\<close> has no surviving token; \<open>slept badly\<close> has two.\<close>

theorem C5_no_token_no_query_witness:
  "filter (\<lambda>w. length w > 3) (split_space ''a an the'') = []
   \<and> getRelatedLogs matchesNothing emptyStore ''a an the'' = ([], [])
   \<and> filter (\<lambda>w. length w > 3) (split_space ''slept badly'') \<noteq> []
   \<and> snd (getRelatedLogs matchesNothing emptyStore ''slept badly'') = [''slept | badly'']"
proof -
  have a: "filter (\<lambda>w. length w > 3) (split_space ''a an the'') = []" by simp
  have b: "filter (\<lambda>w. length w > 3) (split_space ''slept badly'') \<noteq> []" by simp
  have c: "searchTerms ''slept badly'' = ''slept | badly''" by (simp add: searchTerms_def)
  from a b C5_no_token_no_query [of "''a an the''" matchesNothing emptyStore]
    C5_no_token_no_query [of "''slept badly''" matchesNothing emptyStore]
  show ?thesis unfolding c by blast
qed

section \<open>Recency fetch: the window\<close>

lemma getLogsByDateRange_online:
  assumes "online st"
  shows "getLogsByDateRange st startDate endDate =
     map (toLogEntry st)
       (sort_key descCreatedAt (filter (inDateRange startDate endDate) (logs st)))"
  using assms by (simp add: getLogsByDateRange_def)

lemma inDateRange_iff:
  "inDateRange startDate endDate l \<longleftrightarrow>
     (\<exists>t. l_createdAt l = Some t \<and> startDate \<le> t \<and> t \<le> endDate)"
  by (cases "l_createdAt l") (simp_all add: inDateRange_def)

lemma le_createdAt_toLogEntry: "le_createdAt (toLogEntry st l) = l_createdAt l"
  by (simp add: toLogEntry_def)

lemma desc_order_rows:
  assumes "inDateRange s e a" and "inDateRange s e b" and "descCreatedAt a \<le> descCreatedAt b"
  shows "l_createdAt b \<le> l_createdAt a"
proof -
  from assms(1) obtain ta where ta: "l_createdAt a = Some ta" by (auto simp: inDateRange_iff)
  from assms(2) obtain tb where tb: "l_createdAt b = Some tb" by (auto simp: inDateRange_iff)
  from assms(3) show ?thesis by (simp add: descCreatedAt_def ta tb)
qed

lemma sorted_rows_desc:
  "sorted_wrt (\<lambda>a b. l_createdAt b \<le> l_createdAt a)
     (sort_key descCreatedAt (filter (inDateRange s e) rows))"
proof -
  let ?xs = "sort_key descCreatedAt (filter (inDateRange s e) rows)"
  have "sorted (map descCreatedAt ?xs)" by (rule sorted_sort_key)
  then have asc: "sorted_wrt (\<lambda>a b. descCreatedAt a \<le> descCreatedAt b) ?xs"
    by (simp add: sorted_map)
  have mem: "\<And>x. x \<in> set ?xs \<Longrightarrow> inDateRange s e x" by simp
  show ?thesis
    by (rule sorted_wrt_mono_rel [OF _ asc]) (blast intro: desc_order_rows mem)
qed

lemma Day_start: "Day t * dayMs = t - t mod dayMs"
  by (simp add: Day_def minus_mod_eq_div_mult)

lemma Day_back: "Day (t - days * dayMs) = Day t - days"
proof -
  have nz: "dayMs \<noteq> 0" by (simp add: dayMs_def)
  have "(t + (- days) * dayMs) div dayMs = (- days) + t div dayMs"
    using nz by (rule div_mult_self1)
  then show ?thesis by (simp add: Day_def)
qed

lemma setDate_getDate_minus_eq:
  "setDate_getDate_minus tza now days = UTC tza (LocalTime tza now - days * dayMs)"
proof -
  have "(Day (LocalTime tza now) - days) * dayMs + TimeWithinDay (LocalTime tza now)
          = LocalTime tza now - days * dayMs"
    by (simp add: left_diff_distrib Day_start TimeWithinDay_def)
  then show ?thesis by (simp add: setDate_getDate_minus_def Let_def)
qed

lemma recentStartDate_eq:
  "recentStartDate tza now days =
     UTC tza (Day (LocalTime tza (UTC tza (LocalTime tza now - days * dayMs))) * dayMs)"
  by (simp add: recentStartDate_def setHours_def MakeTime_def setDate_getDate_minus_eq)

lemma recentEndDate_eq:
  "recentEndDate tza now = UTC tza (Day (LocalTime tza now) * dayMs + (dayMs - 1))"
  by (simp add: recentEndDate_def setHours_def MakeTime_def dayMs_def)

lemma start_is_local_midnight:
  "\<exists>m. m mod dayMs = 0 \<and> recentStartDate tza now days = UTC tza m"
proof -
  let ?m = "Day (LocalTime tza (UTC tza (LocalTime tza now - days * dayMs))) * dayMs"
  have "?m mod dayMs = 0 \<and> recentStartDate tza now days = UTC tza ?m"
    by (simp add: recentStartDate_eq)
  then show ?thesis by (rule exI [of _ ?m])
qed

lemma start_days_back:
  assumes "LocalTime tza (UTC tza (LocalTime tza now - days * dayMs))
             = LocalTime tza now - days * dayMs"
  shows "recentStartDate tza now days = UTC tza ((Day (LocalTime tza now) - days) * dayMs)"
  by (simp add: recentStartDate_eq assms Day_back)

lemma local_day_of_now:
  "Day t * dayMs \<le> t \<and> t \<le> Day t * dayMs + (dayMs - 1)"
proof -
  have pos: "(0::int) < dayMs" by (simp add: dayMs_def)
  have "0 \<le> t mod dayMs" "t mod dayMs < dayMs" using pos by simp_all
  then show ?thesis by (simp add: Day_start)
qed

lemma fixed_offset_window:
  assumes fixed: "\<forall>t isUTC. tza t isUTC = off"
  shows "recentStartDate tza now days \<le> now - days * dayMs
   \<and> now - days * dayMs < recentStartDate tza now days + dayMs
   \<and> (recentStartDate tza now days + off) mod dayMs = 0
   \<and> now \<le> recentEndDate tza now
   \<and> recentEndDate tza now < now + dayMs
   \<and> (recentEndDate tza now + off + 1) mod dayMs = 0"
proof -
  have pos: "(0::int) < dayMs" by (simp add: dayMs_def)
  have lt: "\<And>t. LocalTime tza t = t + off" and ut: "\<And>t. UTC tza t = t - off"
    using fixed by (simp_all add: LocalTime_def UTC_def)
  have s: "recentStartDate tza now days =
      (now - days * dayMs) - (now - days * dayMs + off) mod dayMs"
    by (simp add: recentStartDate_eq lt ut Day_start)
  have e: "recentEndDate tza now = now - (now + off) mod dayMs + (dayMs - 1)"
    by (simp add: recentEndDate_eq lt ut Day_start)
  have m1: "0 \<le> (now - days * dayMs + off) mod dayMs" "(now - days * dayMs + off) mod dayMs < dayMs"
    using pos by simp_all
  have m2: "0 \<le> (now + off) mod dayMs" "(now + off) mod dayMs < dayMs"
    using pos by simp_all
  have a: "recentStartDate tza now days \<le> now - days * dayMs"
    using m1 by (simp add: s)
  have b: "now - days * dayMs < recentStartDate tza now days + dayMs"
    using m1 by (simp add: s)
  have c: "(recentStartDate tza now days + off) mod dayMs = 0"
  proof -
    have "recentStartDate tza now days + off
            = (now - days * dayMs + off) - (now - days * dayMs + off) mod dayMs"
      by (simp add: s)
    then show ?thesis by (simp add: minus_mod_eq_mult_div)
  qed
  have d: "now \<le> recentEndDate tza now"
    using m2 by (simp add: e)
  have f: "recentEndDate tza now < now + dayMs"
    using m2 by (simp add: e)
  have g: "(recentEndDate tza now + off + 1) mod dayMs = 0"
  proof -
    have "recentEndDate tza now + off + 1 = ((now + off) - (now + off) mod dayMs) + dayMs"
      by (simp add: e)
    then show ?thesis by (simp add: minus_mod_eq_mult_div)
  qed
  from a b c d f g show ?thesis by blast
qed

text \<open>
  Claim C4, amended. When the storage answers, \<open>getRecentLogs\<close> returns exactly the entries
  whose \<open>createdAt\<close> lies in the window from \<open>recentStartDate\<close> to \<open>recentEndDate\<close> (each
  exactly once, none outside, none inside omitted), ordered by \<open>createdAt\<close> descending;
  when the storage fails it returns the empty list. In the server's zone, whatever its
  clock changes are, the window starts at a local midnight and ends at 23:59:59.999 of the
  local calendar day of \<open>now\<close>; when the wall-clock time of \<open>now\<close> exists on the day
  \<open>days\<close> calendar days earlier, the window starts at the midnight that begins that day.
  In a zone with a fixed offset the start is at most one day before \<open>now - days\<close> and the
  end less than one day after \<open>now\<close>.
\<close>

theorem C4_recent_window:
  "(online st \<longrightarrow>
      mset (getRecentLogs tza st now days) =
        mset (map (toLogEntry st)
               (filter (inDateRange (recentStartDate tza now days) (recentEndDate tza now))
                  (logs st)))
    \<and> sorted_wrt (\<lambda>a b. le_createdAt b \<le> le_createdAt a) (getRecentLogs tza st now days))
   \<and> (\<not> online st \<longrightarrow> getRecentLogs tza st now days = [])
   \<and> (inDateRange (recentStartDate tza now days) (recentEndDate tza now) l \<longleftrightarrow>
        (\<exists>t. l_createdAt l = Some t \<and> recentStartDate tza now days \<le> t
           \<and> t \<le> recentEndDate tza now))
   \<and> (\<exists>m. m mod dayMs = 0 \<and> recentStartDate tza now days = UTC tza m)
   \<and> (LocalTime tza (UTC tza (LocalTime tza now - days * dayMs))
         = LocalTime tza now - days * dayMs \<longrightarrow>
        recentStartDate tza now days = UTC tza ((Day (LocalTime tza now) - days) * dayMs))
   \<and> recentEndDate tza now = UTC tza (Day (LocalTime tza now) * dayMs + (dayMs - 1))
   \<and> Day (LocalTime tza now) * dayMs \<le> LocalTime tza now
   \<and> LocalTime tza now \<le> Day (LocalTime tza now) * dayMs + (dayMs - 1)
   \<and> ((\<forall>t isUTC. tza t isUTC = off) \<longrightarrow>
        recentStartDate tza now days \<le> now - days * dayMs
      \<and> now - days * dayMs < recentStartDate tza now days + dayMs
      \<and> (recentStartDate tza now days + off) mod dayMs = 0
      \<and> now \<le> recentEndDate tza now
      \<and> recentEndDate tza now < now + dayMs
      \<and> (recentEndDate tza now + off + 1) mod dayMs = 0)"
proof -
  let ?s = "recentStartDate tza now days" and ?e = "recentEndDate tza now"
  have res: "online st \<Longrightarrow> getRecentLogs tza st now days =
      map (toLogEntry st) (sort_key descCreatedAt (filter (inDateRange ?s ?e) (logs st)))"
    by (simp add: getRecentLogs_def getLogsByDateRange_online)
  have a: "online st \<longrightarrow> mset (getRecentLogs tza st now days) =
        mset (map (toLogEntry st) (filter (inDateRange ?s ?e) (logs st)))"
    by (simp add: res)
  have "sorted_wrt (\<lambda>a b. le_createdAt b \<le> le_createdAt a)
          (map (toLogEntry st) (sort_key descCreatedAt (filter (inDateRange ?s ?e) (logs st))))"
    using sorted_rows_desc [of ?s ?e "logs st"]
    by (simp add: sorted_wrt_map le_createdAt_toLogEntry)
  then have b: "online st \<longrightarrow>
      sorted_wrt (\<lambda>a b. le_createdAt b \<le> le_createdAt a) (getRecentLogs tza st now days)"
    by (simp add: res)
  have c: "\<not> online st \<longrightarrow> getRecentLogs tza st now days = []"
    by (simp add: getRecentLogs_def getLogsByDateRange_def)
  have d: "LocalTime tza (UTC tza (LocalTime tza now - days * dayMs))
         = LocalTime tza now - days * dayMs \<longrightarrow>
        recentStartDate tza now days = UTC tza ((Day (LocalTime tza now) - days) * dayMs)"
    using start_days_back [of tza now days] by blast
  have e: "(\<forall>t isUTC. tza t isUTC = off) \<longrightarrow>
        recentStartDate tza now days \<le> now - days * dayMs
      \<and> now - days * dayMs < recentStartDate tza now days + dayMs
      \<and> (recentStartDate tza now days + off) mod dayMs = 0
      \<and> now \<le> recentEndDate tza now
      \<and> recentEndDate tza now < now + dayMs
      \<and> (recentEndDate tza now + off + 1) mod dayMs = 0"
    using fixed_offset_window [of tza off now days] by blast
  from a b have ab: "online st \<longrightarrow>
      mset (getRecentLogs tza st now days) =
        mset (map (toLogEntry st) (filter (inDateRange ?s ?e) (logs st)))
    \<and> sorted_wrt (\<lambda>a b. le_createdAt b \<le> le_createdAt a) (getRecentLogs tza st now days)"
    by blast
  show ?thesis
    by (intro conjI)
       (rule ab, rule c, rule inDateRange_iff, rule start_is_local_midnight, rule d,
        rule recentEndDate_eq, rule local_day_of_now [THEN conjunct1],
        rule local_day_of_now [THEN conjunct2], rule e)
qed

lemma saved_blank_store:
  "snd (saveLogEntry emptyStore t blankPayload) =
     \<lparr> domains = [\<lparr> d_id = 1, d_name = ''General'', d_color = Some ''#6B7280'',
                      d_isActive = Some True \<rparr>],
       activities = [\<lparr> a_id = 1, a_name = ''General'', a_domainId = Some 1,
                         a_isActive = Some True \<rparr>],
       logs = [\<lparr> l_id = 1, l_createdAt = Some t,
                   l_values = buildInsertData blankPayload 1 1 \<rparr>],
       domains_seq = 1, activities_seq = 1, logs_seq = 1, online = True \<rparr>"
proof -
  have n: "domainNameOf blankPayload = ''General''" "activityNameOf blankPayload = ''General''"
    by (simp_all add: domainNameOf_def activityNameOf_def blankPayload_def str_or_def)
  have c: "capitalized ''General'' = ''General''"
    by (simp add: capitalized_def trim_def is_space_def toUpperCase_def toLowerCase_def
        upper_char_def lower_char_def)
  have l: "toLowerCase (trim ''General'') = ''general''"
    by (simp add: trim_def is_space_def toLowerCase_def lower_char_def)
  have t: "trim ''General'' = ''General''"
    by (simp add: trim_def is_space_def)
  have d: "getOrCreateDomain emptyStore ''General'' =
      Inr (1, emptyStore\<lparr> domains := [\<lparr> d_id = 1, d_name = ''General'',
                 d_color = Some ''#6B7280'', d_isActive = Some True \<rparr>], domains_seq := 1 \<rparr>)"
    by (simp add: getOrCreateDomain_def c l Let_def emptyStore_def domainColors_def)
  have a: "getOrCreateActivity (emptyStore\<lparr> domains := [\<lparr> d_id = 1, d_name = ''General'',
                 d_color = Some ''#6B7280'', d_isActive = Some True \<rparr>], domains_seq := 1 \<rparr>)
               ''General'' 1 =
      Inr (1, emptyStore\<lparr> domains := [\<lparr> d_id = 1, d_name = ''General'',
                 d_color = Some ''#6B7280'', d_isActive = Some True \<rparr>], domains_seq := 1,
               activities := [\<lparr> a_id = 1, a_name = ''General'', a_domainId = Some 1,
                         a_isActive = Some True \<rparr>], activities_seq := 1 \<rparr>)"
    by (simp add: getOrCreateActivity_def t Let_def emptyStore_def)
  show ?thesis
    by (simp add: saveLogEntry_def n d a insert_log_def) (simp add: emptyStore_def)
qed

lemma example_window:
  "recentStartDate utcZone 918000000 2 = 691200000"
  "recentEndDate utcZone 918000000 = 950399999"
  by (simp_all add: recentStartDate_eq recentEndDate_eq LocalTime_def UTC_def utcZone_def
      Day_def dayMs_def)

lemma example_recent:
  "getRecentLogs utcZone (snd (saveLogEntry emptyStore 694800000 blankPayload)) 918000000 2 =
     [toLogEntry (snd (saveLogEntry emptyStore 694800000 blankPayload))
        \<lparr> l_id = 1, l_createdAt = Some 694800000,
           l_values = buildInsertData blankPayload 1 1 \<rparr>]"
  by (simp add: getRecentLogs_def getLogsByDateRange_def example_window)
     (simp add: saved_blank_store inDateRange_def)

lemma newYork_local_now: "LocalTime newYork2024 1710180000000 = 1710165600000"
  by (simp add: LocalTime_def newYork2024_def)

lemma newYork_two_days_back:
  "LocalTime newYork2024 (UTC newYork2024 (LocalTime newYork2024 1710180000000 - 2 * dayMs))
     = LocalTime newYork2024 1710180000000 - 2 * dayMs"
  by (simp add: newYork_local_now dayMs_def) (simp add: LocalTime_def UTC_def newYork2024_def)

lemma newYork_window:
  "UTC newYork2024 ((Day (LocalTime newYork2024 1710180000000) - 2) * dayMs) = 1709960400000"
  "UTC newYork2024 (Day (LocalTime newYork2024 1710180000000) * dayMs + (dayMs - 1))
     = 1710215999999"
  by (simp_all add: newYork_local_now Day_def dayMs_def) (simp_all add: UTC_def newYork2024_def)

text \<open>
  Claim C4, as stated, says that no entry created before \<open>now - days\<close> is returned. With
  the server in UTC, now = day 10 at 15:00 and days = 2, the entry created on day 8 at 01:00
  is returned, although it is older than now minus two days.
\<close>

theorem C4_start_of_day_counterexample:
  "map le_id
     (getRecentLogs utcZone (snd (saveLogEntry emptyStore 694800000 blankPayload)) 918000000 2)
     = [1]
   \<and> map le_createdAt
       (getRecentLogs utcZone (snd (saveLogEntry emptyStore 694800000 blankPayload)) 918000000 2)
     = [Some 694800000]
   \<and> (694800000::int) < 918000000 - 2 * dayMs"
  by (simp add: example_recent toLogEntry_def dayMs_def)

text \<open>
  The store with the one entry of day 8 answers, with the server in UTC (a fixed offset), and
  the entry is in the window; the same store taken offline answers nothing. In New York on
  11 March 2024 at 14:00 local time, two days after the clock change of 10 March, the
  wall-clock time exists two days earlier and the window runs from 9 March 00:00 local
  (05:00 UTC) to 11 March 23:59:59.999 local (03:59:59.999 UTC of 12 March).
\<close>

theorem C4_recent_window_witness:
  "online (snd (saveLogEntry emptyStore 694800000 blankPayload))
   \<and> mset (getRecentLogs utcZone (snd (saveLogEntry emptyStore 694800000 blankPayload))
              918000000 2) =
        mset (map (toLogEntry (snd (saveLogEntry emptyStore 694800000 blankPayload)))
               (filter (inDateRange (recentStartDate utcZone 918000000 2)
                          (recentEndDate utcZone 918000000))
                  (logs (snd (saveLogEntry emptyStore 694800000 blankPayload)))))
   \<and> sorted_wrt (\<lambda>a b. le_createdAt b \<le> le_createdAt a)
        (getRecentLogs utcZone (snd (saveLogEntry emptyStore 694800000 blankPayload))
           918000000 2)
   \<and> length (getRecentLogs utcZone (snd (saveLogEntry emptyStore 694800000 blankPayload))
               918000000 2) = 1
   \<and> \<not> online (emptyStore\<lparr> online := False \<rparr>)
   \<and> getRecentLogs utcZone (emptyStore\<lparr> online := False \<rparr>) 918000000 2 = []
   \<and> (\<forall>t isUTC. utcZone t isUTC = 0)
   \<and> recentStartDate utcZone 918000000 2 \<le> 918000000 - 2 * dayMs
   \<and> 918000000 \<le> recentEndDate utcZone 918000000
   \<and> LocalTime newYork2024 (UTC newYork2024 (LocalTime newYork2024 1710180000000 - 2 * dayMs))
       = LocalTime newYork2024 1710180000000 - 2 * dayMs
   \<and> recentStartDate newYork2024 1710180000000 2 = 1709960400000
   \<and> recentEndDate newYork2024 1710180000000 = 1710215999999"
proof -
  have on: "online (snd (saveLogEntry emptyStore 694800000 blankPayload))"
    by (simp add: saved_blank_store)
  have len: "length (getRecentLogs utcZone (snd (saveLogEntry emptyStore 694800000 blankPayload))
                918000000 2) = 1"
    by (simp add: example_recent)
  have off: "\<not> online (emptyStore\<lparr> online := False \<rparr>)"
    by simp
  have fixed: "\<forall>t isUTC. utcZone t isUTC = 0"
    by (simp add: utcZone_def)
  note utc = C4_recent_window [where st = "snd (saveLogEntry emptyStore 694800000 blankPayload)"
      and tza = utcZone and now = 918000000 and days = 2 and off = 0]
  note down = C4_recent_window [where st = "emptyStore\<lparr> online := False \<rparr>"
      and tza = utcZone and now = 918000000 and days = 2]
  note ny = C4_recent_window [where tza = newYork2024 and now = 1710180000000 and days = 2]
  from on utc have a: "mset (getRecentLogs utcZone
        (snd (saveLogEntry emptyStore 694800000 blankPayload)) 918000000 2) =
        mset (map (toLogEntry (snd (saveLogEntry emptyStore 694800000 blankPayload)))
               (filter (inDateRange (recentStartDate utcZone 918000000 2)
                          (recentEndDate utcZone 918000000))
                  (logs (snd (saveLogEntry emptyStore 694800000 blankPayload)))))"
    and b: "sorted_wrt (\<lambda>a b. le_createdAt b \<le> le_createdAt a)
        (getRecentLogs utcZone (snd (saveLogEntry emptyStore 694800000 blankPayload))
           918000000 2)"
    by blast+
  from off down have c: "getRecentLogs utcZone (emptyStore\<lparr> online := False \<rparr>) 918000000 2 = []"
    by blast
  from fixed utc have d: "recentStartDate utcZone 918000000 2 \<le> 918000000 - 2 * dayMs"
    and e: "918000000 \<le> recentEndDate utcZone 918000000"
    by blast+
  from newYork_two_days_back ny
  have "recentStartDate newYork2024 1710180000000 2 =
      UTC newYork2024 ((Day (LocalTime newYork2024 1710180000000) - 2) * dayMs)"
    by blast
  then have f: "recentStartDate newYork2024 1710180000000 2 = 1709960400000"
    by (simp only: newYork_window)
  from ny have "recentEndDate newYork2024 1710180000000 =
      UTC newYork2024 (Day (LocalTime newYork2024 1710180000000) * dayMs + (dayMs - 1))"
    by blast
  then have g: "recentEndDate newYork2024 1710180000000 = 1710215999999"
    by (simp only: newYork_window)
  from on a b len off c fixed d e newYork_two_days_back f g show ?thesis
    by (intro conjI)
qed

section \<open>The merge of search and recency results\<close>

lemma context_identity_FromSearch: "context_identity (FromSearch r) = searchIdentity r"
  by (simp add: context_identity_def context_id_def context_date_def searchIdentity_def)

lemma context_identity_FromRecent:
  "context_identity (FromRecent (formatRecent l)) = logIdentity l"
  by (simp add: context_identity_def context_id_def context_date_def logIdentity_def
      formatRecent_def)

lemma context_id_FromRecent: "context_id (FromRecent (formatRecent l)) = le_id l"
  by (simp add: context_id_def formatRecent_def)

lemma contextLogs_eq:
  "contextLogs S R =
     map FromSearch S @
     map (FromRecent \<circ> formatRecent)
       (filter (\<lambda>l. logIdentity l \<notin> set (map searchIdentity S)) R)"
  by (simp add: contextLogs_def formattedRecentLogs_def uniqueRecentLogs_def
      searchResultIds_def)

lemma once_in_distinct:
  "distinct (map f xs) \<Longrightarrow> x \<in> set xs \<Longrightarrow> length (filter (\<lambda>y. f y = f x) xs) = 1"
proof (induction xs)
  case Nil
  then show ?case by simp
next
  case (Cons a xs)
  show ?case
  proof (cases "f a = f x")
    case True
    from Cons.prems(1) have "f a \<notin> f ` set xs" by simp
    then have "\<forall>y \<in> set xs. f y \<noteq> f a" by (metis imageI)
    with True have "\<forall>y \<in> set xs. f y \<noteq> f x" by simp
    then have "filter (\<lambda>y. f y = f x) xs = []" by (simp add: filter_empty_conv)
    with True show ?thesis by simp
  next
    case False
    with Cons.prems have "x \<in> set xs" by auto
    with Cons.IH Cons.prems False show ?thesis by simp
  qed
qed

lemma search_part_first:
  "i < length (contextLogs S R) \<Longrightarrow> isFromSearch (contextLogs S R ! i) \<longleftrightarrow> i < length S"
  by (simp add: contextLogs_def nth_append isFromSearch_def)

lemma recent_part_fresh:
  assumes "c \<in> set (contextLogs S R)" and "\<not> isFromSearch c"
  shows "context_identity c \<notin> set (map searchIdentity S)"
proof -
  from assms obtain l where l: "l \<in> set R" "logIdentity l \<notin> set (map searchIdentity S)"
    and c: "c = FromRecent (formatRecent l)"
    by (auto simp: contextLogs_eq isFromSearch_def)
  show ?thesis unfolding c context_identity_FromRecent by (rule l(2))
qed

lemma identity_once:
  assumes d: "distinct (map searchIdentity S)" and k: "k \<in> set (map searchIdentity S)"
  shows "length (filter (\<lambda>c. context_identity c = k) (contextLogs S R)) = 1"
proof -
  from k obtain r where r: "r \<in> set S" "searchIdentity r = k" by auto
  have s: "length (filter (\<lambda>y. searchIdentity y = k) S) = 1"
    using once_in_distinct [OF d r(1)] r(2) by simp
  have "filter (\<lambda>l. logIdentity l = k)
          (filter (\<lambda>l. logIdentity l \<notin> set (map searchIdentity S)) R) = []"
    using k by (auto simp: filter_empty_conv)
  then show ?thesis
    using s
    by (simp add: contextLogs_eq filter_map o_def context_identity_FromSearch
        context_identity_FromRecent)
qed

lemma id_once:
  assumes d: "distinct (map sr_id S)" and i: "i \<in> set (map sr_id S)" and nz: "i \<noteq> 0"
  shows "length (filter (\<lambda>c. context_id c = i) (contextLogs S R)) = 1"
proof -
  from i obtain r where r: "r \<in> set S" "sr_id r = i" by auto
  have s: "length (filter (\<lambda>y. sr_id y = i) S) = 1"
    using once_in_distinct [OF d r(1)] r(2) by simp
  have "searchIdentity r = i" using r(2) nz by (simp add: searchIdentity_def)
  with r(1) have known: "i \<in> set (map searchIdentity S)" by force
  have "\<forall>l \<in> set R. le_id l = i \<longrightarrow> logIdentity l = i"
    using nz by (simp add: logIdentity_def)
  with known have "filter (\<lambda>l. le_id l = i)
          (filter (\<lambda>l. logIdentity l \<notin> set (map searchIdentity S)) R) = []"
    by (auto simp: filter_empty_conv)
  then show ?thesis
    using s
    by (simp add: contextLogs_eq filter_map o_def context_id_FromRecent)
       (simp add: context_id_def)
qed

lemma distinct_ids_sorted_filtered:
  assumes "distinct (map l_id rows)"
  shows "distinct (map l_id (sort_key k (filter P rows)))"
proof -
  have "distinct (map l_id (filter P rows))"
    using assms by (rule distinct_map_filter)
  moreover have "mset (map l_id (sort_key k (filter P rows))) = mset (map l_id (filter P rows))"
    by simp
  ultimately show ?thesis by (metis mset_eq_imp_distinct_iff)
qed

lemma search_ids:
  "\<exists>xs. set xs \<subseteq> set (logs st) \<and> (distinct (map l_id (logs st)) \<longrightarrow> distinct (map l_id xs))
        \<and> fst (getRelatedLogs fts st q) = map (toSearchResult st) xs"
proof (cases "searchTerms q = [] \<or> \<not> online st \<or> fts (searchTerms q) = None")
  case True
  then have "fst (getRelatedLogs fts st q) = map (toSearchResult st) []"
    by (auto simp: getRelatedLogs_def)
  then show ?thesis by (intro exI [of _ "[]"]) simp
next
  case False
  then obtain m where m: "fts (searchTerms q) = Some m" by auto
  let ?xs = "take 5 (sort_key descCreatedAt (filter (\<lambda>l. m (searchDocument l)) (logs st)))"
  have r: "fst (getRelatedLogs fts st q) = map (toSearchResult st) ?xs"
    using False m by (simp add: getRelatedLogs_def)
  have sub: "set ?xs \<subseteq> set (logs st)"
    using set_take_subset [of 5 "sort_key descCreatedAt (filter (\<lambda>l. m (searchDocument l)) (logs st))"]
    by auto
  have d: "distinct (map l_id (logs st)) \<longrightarrow> distinct (map l_id ?xs)"
  proof
    assume "distinct (map l_id (logs st))"
    then have "distinct (map l_id (sort_key descCreatedAt
                 (filter (\<lambda>l. m (searchDocument l)) (logs st))))"
      by (rule distinct_ids_sorted_filtered)
    then have "distinct (take 5 (map l_id (sort_key descCreatedAt
                 (filter (\<lambda>l. m (searchDocument l)) (logs st)))))"
      by (rule distinct_take)
    then show "distinct (map l_id ?xs)" by (simp add: take_map)
  qed
  from sub d r show ?thesis by blast
qed

lemma recent_ids:
  "\<exists>ys. set ys \<subseteq> set (logs st) \<and> (distinct (map l_id (logs st)) \<longrightarrow> distinct (map l_id ys))
        \<and> getRecentLogs tz st now days = map (toLogEntry st) ys"
proof (cases "online st")
  case False
  then have "getRecentLogs tz st now days = map (toLogEntry st) []"
    by (simp add: getRecentLogs_def getLogsByDateRange_def)
  then show ?thesis by (intro exI [of _ "[]"]) simp
next
  case True
  let ?ys = "sort_key descCreatedAt
      (filter (inDateRange (recentStartDate tz now days) (recentEndDate tz now)) (logs st))"
  have r: "getRecentLogs tz st now days = map (toLogEntry st) ?ys"
    using True by (simp add: getRecentLogs_def getLogsByDateRange_def)
  have sub: "set ?ys \<subseteq> set (logs st)" by auto
  have d: "distinct (map l_id (logs st)) \<longrightarrow> distinct (map l_id ?ys)"
    using distinct_ids_sorted_filtered by blast
  from sub d r show ?thesis by blast
qed

lemma merged_ids_distinct:
  assumes dS: "distinct (map sr_id S)" and dR: "distinct (map le_id R)"
    and nzS: "\<forall>r \<in> set S. sr_id r \<noteq> 0" and nzR: "\<forall>l \<in> set R. le_id l \<noteq> 0"
  shows "distinct (map context_id (contextLogs S R))"
proof -
  let ?kept = "filter (\<lambda>l. logIdentity l \<notin> set (map searchIdentity S)) R"
  have ids: "map context_id (contextLogs S R) = map sr_id S @ map le_id ?kept"
    by (simp add: contextLogs_eq o_def context_id_FromRecent) (simp add: context_id_def)
  have sid: "map searchIdentity S = map sr_id S"
    using nzS by (simp add: searchIdentity_def)
  have kept: "distinct (map le_id ?kept)"
    using dR by (rule distinct_map_filter)
  have disj: "set (map sr_id S) \<inter> set (map le_id ?kept) = {}"
  proof -
    have "\<And>l. l \<in> set ?kept \<Longrightarrow> le_id l \<notin> set (map sr_id S)"
    proof -
      fix l assume "l \<in> set ?kept"
      then have l: "l \<in> set R" "logIdentity l \<notin> set (map searchIdentity S)" by simp_all
      from l(1) nzR have "logIdentity l = le_id l" by (simp add: logIdentity_def)
      with l(2) sid show "le_id l \<notin> set (map sr_id S)" by simp
    qed
    then have "\<forall>i \<in> set (map le_id ?kept). i \<notin> set (map sr_id S)"
      by (simp del: set_filter)
    then show ?thesis by blast
  qed
  from dS kept disj show ?thesis unfolding ids by simp
qed

lemma chatContext_ids_distinct:
  assumes d: "distinct (map l_id (logs st))" and nz: "\<forall>l \<in> set (logs st). l_id l \<noteq> 0"
  shows "distinct (map context_id (chatContext fts tz st now q))"
proof -
  obtain xs where xs: "set xs \<subseteq> set (logs st)" "distinct (map l_id xs)"
    "fst (getRelatedLogs fts st q) = map (toSearchResult st) xs"
    using search_ids [of st fts q] d by blast
  obtain ys where ys: "set ys \<subseteq> set (logs st)" "distinct (map l_id ys)"
    "getRecentLogs tz st now (recentDays (map (toSearchResult st) xs)) = map (toLogEntry st) ys"
    using recent_ids [of st tz now "recentDays (map (toSearchResult st) xs)"] d by blast
  have a: "distinct (map sr_id (map (toSearchResult st) xs))"
    using xs(2) by (simp add: o_def toSearchResult_def)
  have b: "distinct (map le_id (map (toLogEntry st) ys))"
    using ys(2) by (simp add: o_def toLogEntry_def)
  have c: "\<forall>r \<in> set (map (toSearchResult st) xs). sr_id r \<noteq> 0"
    using xs(1) nz by (auto simp: toSearchResult_def)
  have e: "\<forall>l \<in> set (map (toLogEntry st) ys). le_id l \<noteq> 0"
    using ys(1) nz by (auto simp: toLogEntry_def)
  have "chatContext fts tz st now q =
          contextLogs (map (toSearchResult st) xs) (map (toLogEntry st) ys)"
    by (simp add: chatContext_def Let_def xs(3) ys(3))
  with merged_ids_distinct [OF a b c e] show ?thesis by simp
qed

lemma searchIdentity_row: "l_id r \<noteq> 0 \<Longrightarrow> searchIdentity (toSearchResult st r) = l_id r"
  by (simp add: searchIdentity_def toSearchResult_def)

lemma logIdentity_row: "l_id r \<noteq> 0 \<Longrightarrow> logIdentity (toLogEntry st r) = l_id r"
  by (simp add: logIdentity_def toLogEntry_def)

text \<open>
  Claim C1. For all lists \<open>S\<close> of search results and \<open>R\<close> of recent entries, the merged
  context is \<open>S\<close> followed by the entries of \<open>R\<close> whose identity (the id, or the timestamp
  when the id is 0) is not the identity of an entry of \<open>S\<close>. Hence the positions below
  \<open>length S\<close> are exactly those that come from the search, whatever the timestamps are; no
  entry from the recency fetch has the identity of a search result; an identity of \<open>S\<close>
  occurs once in the output, and so does an id of \<open>S\<close> (search results being rows of one
  table, their ids are distinct and not 0). For the chat flow itself, on a store whose log
  ids are distinct and not 0, the merged context has no id twice.
\<close>

theorem C1_search_first_then_unseen_recent:
  "contextLogs S R =
     map FromSearch S @
     map (FromRecent \<circ> formatRecent)
       (filter (\<lambda>l. logIdentity l \<notin> set (map searchIdentity S)) R)
   \<and> (\<forall>i < length (contextLogs S R). isFromSearch (contextLogs S R ! i) \<longleftrightarrow> i < length S)
   \<and> (\<forall>c \<in> set (contextLogs S R).
         \<not> isFromSearch c \<longrightarrow> context_identity c \<notin> set (map searchIdentity S))
   \<and> (distinct (map searchIdentity S) \<and> k \<in> set (map searchIdentity S) \<longrightarrow>
         length (filter (\<lambda>c. context_identity c = k) (contextLogs S R)) = 1)
   \<and> (distinct (map sr_id S) \<and> i \<in> set (map sr_id S) \<and> i \<noteq> 0 \<longrightarrow>
         length (filter (\<lambda>c. context_id c = i) (contextLogs S R)) = 1)
   \<and> (distinct (map l_id (logs st)) \<and> 0 \<notin> set (map l_id (logs st)) \<longrightarrow>
         distinct (map context_id (chatContext fts tz st now q)))"
proof -
  have a: "contextLogs S R =
     map FromSearch S @
     map (FromRecent \<circ> formatRecent)
       (filter (\<lambda>l. logIdentity l \<notin> set (map searchIdentity S)) R)"
    by (rule contextLogs_eq)
  have b: "\<forall>i < length (contextLogs S R). isFromSearch (contextLogs S R ! i) \<longleftrightarrow> i < length S"
  proof (intro allI impI)
    fix i assume "i < length (contextLogs S R)"
    then show "isFromSearch (contextLogs S R ! i) \<longleftrightarrow> i < length S"
      by (rule search_part_first)
  qed
  have c: "\<forall>c \<in> set (contextLogs S R).
         \<not> isFromSearch c \<longrightarrow> context_identity c \<notin> set (map searchIdentity S)"
  proof (intro ballI impI)
    fix c assume "c \<in> set (contextLogs S R)" and "\<not> isFromSearch c"
    then show "context_identity c \<notin> set (map searchIdentity S)"
      by (rule recent_part_fresh)
  qed
  have d: "distinct (map searchIdentity S) \<and> k \<in> set (map searchIdentity S) \<longrightarrow>
         length (filter (\<lambda>c. context_identity c = k) (contextLogs S R)) = 1"
  proof
    assume "distinct (map searchIdentity S) \<and> k \<in> set (map searchIdentity S)"
    then show "length (filter (\<lambda>c. context_identity c = k) (contextLogs S R)) = 1"
      using identity_once [of S k R] by simp
  qed
  have e: "distinct (map sr_id S) \<and> i \<in> set (map sr_id S) \<and> i \<noteq> 0 \<longrightarrow>
         length (filter (\<lambda>c. context_id c = i) (contextLogs S R)) = 1"
  proof
    assume "distinct (map sr_id S) \<and> i \<in> set (map sr_id S) \<and> i \<noteq> 0"
    then show "length (filter (\<lambda>c. context_id c = i) (contextLogs S R)) = 1"
      using id_once [of S i R] by simp
  qed
  have f: "distinct (map l_id (logs st)) \<and> 0 \<notin> set (map l_id (logs st)) \<longrightarrow>
         distinct (map context_id (chatContext fts tz st now q))"
  proof
    assume h: "distinct (map l_id (logs st)) \<and> 0 \<notin> set (map l_id (logs st))"
    then have "\<forall>l \<in> set (logs st). l_id l \<noteq> 0" by (metis imageI set_map)
    with h show "distinct (map context_id (chatContext fts tz st now q))"
      using chatContext_ids_distinct by blast
  qed
  show ?thesis
    by (intro conjI) (rule a, rule b, rule c, rule d, rule e, rule f)
qed


lemma example_search_ids:
  "sr_id (toSearchResult emptyStore (exampleRow 2 1000)) = 2"
  "searchIdentity (toSearchResult emptyStore (exampleRow 2 1000)) = 2"
  by (simp_all add: toSearchResult_def exampleRow_def searchIdentity_def)

lemma example_context:
  "contextLogs [toSearchResult emptyStore (exampleRow 2 1000)]
     [toLogEntry emptyStore (exampleRow 3 9000), toLogEntry emptyStore (exampleRow 2 1000)] =
   [FromSearch (toSearchResult emptyStore (exampleRow 2 1000)),
    FromRecent (formatRecent (toLogEntry emptyStore (exampleRow 3 9000)))]"
proof -
  have a: "logIdentity (toLogEntry emptyStore (exampleRow 3 9000)) = 3"
    "logIdentity (toLogEntry emptyStore (exampleRow 2 1000)) = 2"
    by (simp_all add: logIdentity_def toLogEntry_def exampleRow_def)
  show ?thesis
    by (simp add: contextLogs_eq example_search_ids a)
qed

text \<open>
  One search result (id 2, the older entry) and two recent entries (ids 3 and 2): the merge
  is the search result, then entry 3.
\<close>

theorem C1_search_first_then_unseen_recent_witness:
  "distinct (map sr_id [toSearchResult emptyStore (exampleRow 2 1000)])
   \<and> 2 \<in> set (map sr_id [toSearchResult emptyStore (exampleRow 2 1000)])
   \<and> (2::int) \<noteq> 0
   \<and> distinct (map searchIdentity [toSearchResult emptyStore (exampleRow 2 1000)])
   \<and> 2 \<in> set (map searchIdentity [toSearchResult emptyStore (exampleRow 2 1000)])
   \<and> length (filter (\<lambda>c. context_id c = 2)
        (contextLogs [toSearchResult emptyStore (exampleRow 2 1000)]
           [toLogEntry emptyStore (exampleRow 3 9000),
            toLogEntry emptyStore (exampleRow 2 1000)])) = 1
   \<and> length (filter (\<lambda>c. context_identity c = 2)
        (contextLogs [toSearchResult emptyStore (exampleRow 2 1000)]
           [toLogEntry emptyStore (exampleRow 3 9000),
            toLogEntry emptyStore (exampleRow 2 1000)])) = 1
   \<and> map context_id
        (contextLogs [toSearchResult emptyStore (exampleRow 2 1000)]
           [toLogEntry emptyStore (exampleRow 3 9000),
            toLogEntry emptyStore (exampleRow 2 1000)]) = [2, 3]
   \<and> map context_date
        (contextLogs [toSearchResult emptyStore (exampleRow 2 1000)]
           [toLogEntry emptyStore (exampleRow 3 9000),
            toLogEntry emptyStore (exampleRow 2 1000)]) = [Some 1000, Some 9000]
   \<and> map isFromSearch
        (contextLogs [toSearchResult emptyStore (exampleRow 2 1000)]
           [toLogEntry emptyStore (exampleRow 3 9000),
            toLogEntry emptyStore (exampleRow 2 1000)]) = [True, False]
   \<and> distinct (map l_id (logs (snd (saveLogEntry emptyStore 694800000 blankPayload))))
   \<and> 0 \<notin> set (map l_id (logs (snd (saveLogEntry emptyStore 694800000 blankPayload))))
   \<and> distinct (map context_id
         (chatContext matchesEverything utcZone (snd (saveLogEntry emptyStore 694800000 blankPayload))
            918000000 ''description''))
   \<and> map context_id
         (chatContext matchesEverything utcZone (snd (saveLogEntry emptyStore 694800000 blankPayload))
            918000000 ''description'') = [1]"
proof -
  let ?S = "[toSearchResult emptyStore (exampleRow 2 1000)]"
  let ?R = "[toLogEntry emptyStore (exampleRow 3 9000), toLogEntry emptyStore (exampleRow 2 1000)]"
  have h: "distinct (map sr_id ?S)" "2 \<in> set (map sr_id ?S)" "(2::int) \<noteq> 0"
    "distinct (map searchIdentity ?S)" "2 \<in> set (map searchIdentity ?S)"
    by (simp_all add: example_search_ids)
  have ids: "map context_id (contextLogs ?S ?R) = [2, 3]"
    unfolding example_context
    by (simp add: context_id_def toSearchResult_def formatRecent_def toLogEntry_def
        exampleRow_def)
  have dates: "map context_date (contextLogs ?S ?R) = [Some 1000, Some 9000]"
    unfolding example_context
    by (simp add: context_date_def toSearchResult_def formatRecent_def toLogEntry_def
        exampleRow_def)
  have src: "map isFromSearch (contextLogs ?S ?R) = [True, False]"
    unfolding example_context by (simp add: isFromSearch_def)
  let ?st = "snd (saveLogEntry emptyStore 694800000 blankPayload)"
  have g: "distinct (map l_id (logs ?st))" "0 \<notin> set (map l_id (logs ?st))"
    by (simp_all add: saved_blank_store)
  have st: "searchTerms ''description'' = ''description''"
    by (simp add: searchTerms_def)
  have sr: "fst (getRelatedLogs matchesEverything ?st ''description'') =
      [toSearchResult ?st (exampleRow 1 694800000)]"
    by (simp add: getRelatedLogs_def st matchesEverything_def)
       (simp add: saved_blank_store exampleRow_def)
  have rc: "getRecentLogs utcZone ?st 918000000 2 = [toLogEntry ?st (exampleRow 1 694800000)]"
    by (simp add: example_recent exampleRow_def)
  have i1: "searchIdentity (toSearchResult ?st (exampleRow 1 694800000)) = 1"
    "logIdentity (toLogEntry ?st (exampleRow 1 694800000)) = 1"
    by (simp_all add: searchIdentity_row logIdentity_row exampleRow_def)
  have i2: "sr_id (toSearchResult ?st (exampleRow 1 694800000)) = 1"
    by (simp add: exampleRow_def toSearchResult_def)
  have cc: "chatContext matchesEverything utcZone ?st 918000000 ''description'' =
      [FromSearch (toSearchResult ?st (exampleRow 1 694800000))]"
    by (simp add: chatContext_def Let_def sr recentDays_def rc contextLogs_eq i1)
  have cid: "map context_id (chatContext matchesEverything utcZone ?st 918000000 ''description'') = [1]"
    unfolding cc by (simp add: context_id_def i2)
  from g C1_search_first_then_unseen_recent [of _ _ _ _ ?st matchesEverything utcZone 918000000
      "''description''"]
  have dist: "distinct (map context_id
      (chatContext matchesEverything utcZone ?st 918000000 ''description''))"
    by blast
  from h C1_search_first_then_unseen_recent [of ?S ?R 2 2]
  have once: "length (filter (\<lambda>c. context_id c = 2) (contextLogs ?S ?R)) = 1"
    "length (filter (\<lambda>c. context_identity c = 2) (contextLogs ?S ?R)) = 1"
    by blast+
  from h once ids dates src g dist cid show ?thesis by blast
qed

end
